theory Spec2Isabelle
  imports Main "HOL-Library.Sublist"
begin

section \<open>Values of the host language\<close>

text \<open>
  A value thrown in JavaScript is either an instance of \<^verbatim>\<open>Error\<close>, which carries a
  message, or anything else; the handlers below test \<^verbatim>\<open>e instanceof Error\<close> and
  otherwise cast the value to a string.
\<close>

datatype thrown = ErrorObj string | NonError string

text \<open>
  Environment variables and optional inputs are \<^verbatim>\<open>string | undefined\<close>: an option.
  \<^verbatim>\<open>!v\<close> holds for \<^verbatim>\<open>undefined\<close> and for the empty string.
\<close>

definition falsy :: "string option \<Rightarrow> bool" where
  "falsy v = (v = None \<or> v = Some [])"

definition js_or :: "string option \<Rightarrow> string option \<Rightarrow> string option" where
  \<comment> \<open>\<^verbatim>\<open>a || b\<close>\<close>
  "js_or a b = (if falsy a then b else a)"

definition interpolate :: "string option \<Rightarrow> string" where
  \<comment> \<open>\<^verbatim>\<open>`${v}`\<close> in a template literal\<close>
  "interpolate v = (case v of None \<Rightarrow> ''undefined'' | Some s \<Rightarrow> s)"

fun js_replace :: "string \<Rightarrow> string \<Rightarrow> string \<Rightarrow> string" where
  \<comment> \<open>\<^verbatim>\<open>s.replace(pat, rep)\<close> with a string pattern: the first occurrence only\<close>
  "js_replace [] pat rep = (if pat = [] then rep else [])"
| "js_replace (c # cs) pat rep =
     (if prefix pat (c # cs) then rep @ drop (length pat) (c # cs)
      else c # js_replace cs pat rep)"

fun join_with :: "string \<Rightarrow> string list \<Rightarrow> string" where
  \<comment> \<open>\<^verbatim>\<open>xs.join(sep)\<close>\<close>
  "join_with sep [] = []"
| "join_with sep [x] = x"
| "join_with sep (x # y # ys) = x @ sep @ join_with sep (y # ys)"

fun digits :: "nat \<Rightarrow> string" where
  \<comment> \<open>a number in a template literal\<close>
  "digits n =
     (if n < 10 then [char_of (48 + n)]
      else digits (n div 10) @ [char_of (48 + n mod 10)])"

declare digits.simps [simp del]

datatype log_entry =
    Log string
  | Warn string
  | Err string
  | ErrValue string thrown
  | LogReport "(string \<times> string list) list"

section \<open>Configuration\<close>

text \<open>
  \<^verbatim>\<open>buildConfigSchema\<close>: every key is optional; \<^verbatim>\<open>imagesPath\<close> is a string or an
  array of strings, \<^verbatim>\<open>loadingStrategy\<close> one of two literals.
\<close>

datatype paths = OnePath string | ManyPaths "string list"

datatype loading = lazy | eager

record buildConfig =
  cloudName :: "string option"
  cname :: "string option"
  deliveryType :: "string option"
  folder :: "string option"
  imagesPath :: "paths option"
  privateCdn :: "bool option"
  loadingStrategy :: "loading option"
  uploadPreset :: "string option"

text \<open>\<^verbatim>\<open>process.env\<close>, the variables the handlers read.\<close>

record env =
  CONTEXT :: "string option"
  NETLIFY_HOST :: "string option"
  DEPLOY_PRIME_URL :: "string option"
  SITE_NAME :: "string option"
  CLOUDINARY_CLOUD_NAME :: "string option"
  CLOUDINARY_API_KEY :: "string option"
  CLOUDINARY_API_SECRET :: "string option"

record asset_directory =
  name :: string
  inputKey :: string
  path :: string

definition CLOUDINARY_ASSET_DIRECTORIES :: "asset_directory list" where
  "CLOUDINARY_ASSET_DIRECTORIES =
     [\<lparr>name = ''images'', inputKey = ''imagesPath'', path = ''/images''\<rparr>]"

text \<open>
  \<^verbatim>\<open>buildConfig[inputKey]\<close> reads a key chosen at run time, so its value may be
  any of the schema's value types.
\<close>

datatype jsval = JString string | JArray "string list" | JBool bool

definition paths_val :: "paths \<Rightarrow> jsval" where
  "paths_val p = (case p of OnePath s \<Rightarrow> JString s | ManyPaths ss \<Rightarrow> JArray ss)"

definition loading_val :: "loading \<Rightarrow> jsval" where
  "loading_val l = (case l of lazy \<Rightarrow> JString ''lazy'' | eager \<Rightarrow> JString ''eager'')"

definition buildConfig_get :: "buildConfig \<Rightarrow> string \<Rightarrow> jsval option" where
  "buildConfig_get c k =
     (if k = ''cloudName'' then map_option JString (cloudName c)
      else if k = ''cname'' then map_option JString (cname c)
      else if k = ''deliveryType'' then map_option JString (deliveryType c)
      else if k = ''folder'' then map_option JString (folder c)
      else if k = ''imagesPath'' then map_option paths_val (imagesPath c)
      else if k = ''privateCdn'' then map_option JBool (privateCdn c)
      else if k = ''loadingStrategy'' then map_option loading_val (loadingStrategy c)
      else if k = ''uploadPreset'' then map_option JString (uploadPreset c)
      else None)"

definition truthy :: "jsval option \<Rightarrow> bool" where
  "truthy v =
     (case v of None \<Rightarrow> False
      | Some (JString s) \<Rightarrow> s \<noteq> []
      | Some (JArray ss) \<Rightarrow> True
      | Some (JBool b) \<Rightarrow> b)"

text \<open>The destructuring defaults of the handlers (lines 75--84 and 268--274).\<close>

definition host_of :: "env \<Rightarrow> string option" where
  "host_of e =
     (if CONTEXT e = Some ''production'' then NETLIFY_HOST e else DEPLOY_PRIME_URL e)"

definition deliveryType_of :: "buildConfig \<Rightarrow> string" where
  "deliveryType_of c = (case deliveryType c of None \<Rightarrow> ''fetch'' | Some d \<Rightarrow> d)"

definition folder_of :: "env \<Rightarrow> buildConfig \<Rightarrow> string option" where
  "folder_of e c = (case folder c of None \<Rightarrow> SITE_NAME e | Some f \<Rightarrow> Some f)"

definition imagesPath_of :: "buildConfig \<Rightarrow> paths option" where
  "imagesPath_of c =
     (case imagesPath c of
        None \<Rightarrow>
          map_option (\<lambda>d. OnePath (path d))
            (find (\<lambda>d. inputKey d = ''imagesPath'') CLOUDINARY_ASSET_DIRECTORIES)
      | Some p \<Rightarrow> Some p)"

definition cloudName_of :: "env \<Rightarrow> buildConfig \<Rightarrow> string option" where
  "cloudName_of e c = js_or (CLOUDINARY_CLOUD_NAME e) (cloudName c)"

section \<open>Collaborators outside this file\<close>

text \<open>
  \<^verbatim>\<open>configureCloudinary\<close> stores the account configuration that the URL resolver
  reads later; the model passes the stored object to the resolver explicitly.
\<close>

record cloudinary_config =
  cfg_cloudName :: "string option"
  cfg_apiKey :: "string option"
  cfg_apiSecret :: "string option"
  cfg_cname :: "string option"
  cfg_privateCdn :: "bool option"

text \<open>The argument object of \<^verbatim>\<open>getCloudinaryUrl\<close>, key by key.\<close>

record url_request =
  req_deliveryType :: string
  req_folder :: "string option"
  req_path :: string
  req_localDir :: "string option"
  req_uploadPreset :: "string option"
  req_remoteHost :: "string option"

text \<open>
  Modelled from the spec: the value \<^verbatim>\<open>getCloudinaryUrl\<close> resolves to is declared in
  \<^verbatim>\<open>lib/cloudinary.js\<close>; the handlers read its \<^verbatim>\<open>cloudinaryUrl\<close> and spread the rest
  into the asset record, for which the spec lists an identifier and dimensions.
\<close>

record cloudinary_result =
  cloudinaryUrl :: string
  publicId :: "string option"
  width :: "nat option"
  height :: "nat option"

text \<open>\<^verbatim>\<open>{ publishPath, ...cloudinary }\<close>\<close>

record asset = cloudinary_result +
  publishPath :: string

definition asset_of :: "string \<Rightarrow> cloudinary_result \<Rightarrow> asset" where
  "asset_of p c =
     \<lparr>cloudinaryUrl = cloudinaryUrl c, publicId = publicId c, width = width c,
      height = height c, publishPath = p\<rparr>"

text \<open>
  \<^verbatim>\<open>_cloudinaryAssets\<close>: one key, \<^verbatim>\<open>images\<close>, which holds \<^verbatim>\<open>{}\<close> until the build
  handler assigns the resolved list.
\<close>

datatype images_entry = Unpopulated | Populated "asset list"

record asset_cache =
  images :: images_entry

text \<open>The options object and the result of \<^verbatim>\<open>updateHtmlImagesToCloudinary\<close>.\<close>

record rewrite_options =
  opt_assets :: asset_cache
  opt_deliveryType :: string
  opt_uploadPreset :: "string option"
  opt_folder :: "string option"
  opt_localDir :: string
  opt_remoteHost :: "string option"

record rewrite_result =
  html :: string
  errors :: "string list"

text \<open>
  The imported constants and functions whose definitions are in other modules
  (\<^verbatim>\<open>data/cloudinary\<close>, \<^verbatim>\<open>data/errors.js\<close>, \<^verbatim>\<open>lib/cloudinary.js\<close>, \<^verbatim>\<open>lib/util.js\<close>)
  or in the platform (\<^verbatim>\<open>path.join\<close>, \<^verbatim>\<open>glob.sync\<close>, \<^verbatim>\<open>fs.readFileSync\<close>) are parameters of the model. A rejected
  promise is \<open>Inl\<close>. \<^verbatim>\<open>findAssetsByPath\<close> is synchronous and is called with a string
  or an array of strings, for which it does not throw.
\<close>

record externals =
  PUBLIC_ASSET_PATH :: string
  ERROR_SITE_NAME_REQUIRED :: string
  ERROR_NETLIFY_HOST_UNKNOWN :: string
  ERROR_NETLIFY_HOST_CLI_SUPPORT :: string
  ERROR_CLOUD_NAME_REQUIRED :: string
  ERROR_API_CREDENTIALS_REQUIRED :: string
  ERROR_INVALID_IMAGES_PATH :: string
  getCloudinaryUrl :: "cloudinary_config \<Rightarrow> url_request \<Rightarrow> thrown + cloudinary_result"
  findAssetsByPath :: "string \<Rightarrow> paths \<Rightarrow> string list"
  path_join :: "string \<Rightarrow> string \<Rightarrow> string"
  updateHtmlImagesToCloudinary ::
    "cloudinary_config \<Rightarrow> string \<Rightarrow> rewrite_options \<Rightarrow> thrown + rewrite_result"
  glob_sync :: "string \<Rightarrow> string list"
  readFileSync :: "string \<Rightarrow> string"

section \<open>Concurrent completion\<close>

text \<open>
  The handlers start one asynchronous task per list element and the tasks settle in
  an order the code does not control. A schedule lists the positions of the tasks in
  the order they settle; \<open>in_order\<close> arranges the tasks' results that way.
\<close>

definition valid_schedule :: "nat \<Rightarrow> nat list \<Rightarrow> bool" where
  "valid_schedule n sched =
     (distinct sched \<and> length sched = n \<and> list_all (\<lambda>i. i < n) sched)"

definition in_order :: "nat list \<Rightarrow> 'a list \<Rightarrow> 'a list" where
  "in_order sched xs = map (\<lambda>i. xs ! i) (filter (\<lambda>i. i < length xs) sched)"

fun first_rejection :: "('e + 'a) list \<Rightarrow> 'e option" where
  "first_rejection [] = None"
| "first_rejection (Inl e # rs) = Some e"
| "first_rejection (Inr v # rs) = first_rejection rs"

fun fulfilled :: "('e + 'a) list \<Rightarrow> 'a list" where
  "fulfilled [] = []"
| "fulfilled (Inl e # rs) = fulfilled rs"
| "fulfilled (Inr v # rs) = v # fulfilled rs"

definition promise_all :: "nat list \<Rightarrow> ('e + 'a) list \<Rightarrow> 'e + 'a list" where
  \<comment> \<open>\<^verbatim>\<open>Promise.all\<close>: rejects with the reason of the task that rejects first in time,
      otherwise resolves to the values in the order of the input\<close>
  "promise_all sched rs =
     (case first_rejection (in_order sched rs) of
        Some e \<Rightarrow> Inl e
      | None \<Rightarrow>
          (case first_rejection rs of Some e \<Rightarrow> Inl e | None \<Rightarrow> Inr (fulfilled rs)))"

section \<open>State of a handler run\<close>

record redirect =
  r_from :: string
  r_to :: string
  r_status :: nat
  r_force :: bool

text \<open>
  How a handler ends: it returns at its last line, returns early after the host
  warning, returns after calling \<^verbatim>\<open>utils.build.failPlugin\<close> or
  \<^verbatim>\<open>utils.build.failBuild\<close> with a message, or throws.
\<close>

datatype exit = Done | Skipped | FailPlugin string | FailBuild string | Threw thrown

record run =
  exit :: exit
  console :: "log_entry list"
  redirects :: "redirect list"
  assets :: asset_cache
  configured :: "cloudinary_config option"
  pages_written :: "(string \<times> string) list"
  unhandled :: "thrown list"

definition start :: "redirect list \<Rightarrow> asset_cache \<Rightarrow> run" where
  \<comment> \<open>\<^verbatim>\<open>netlifyConfig.redirects\<close> and \<^verbatim>\<open>_cloudinaryAssets\<close> as the handler finds them\<close>
  "start rs cache =
     \<lparr>exit = Done, console = [], redirects = rs, assets = cache, configured = None,
      pages_written = [], unhandled = []\<rparr>"

definition say :: "log_entry \<Rightarrow> run \<Rightarrow> run" where
  "say l s = s\<lparr>console := console s @ [l]\<rparr>"

definition unshift :: "redirect \<Rightarrow> run \<Rightarrow> run" where
  \<comment> \<open>\<^verbatim>\<open>netlifyConfig.redirects.unshift(r)\<close>\<close>
  "unshift r s = s\<lparr>redirects := r # redirects s\<rparr>"

section \<open>The build handler\<close>

text \<open>
  Lines 64--112: the two log lines and the precondition checks. \<open>Inl\<close> is the state
  in which the handler has returned, \<open>Inr\<close> the state in which it goes on.
\<close>

definition onBuild_checks :: "externals \<Rightarrow> env \<Rightarrow> buildConfig \<Rightarrow> run \<Rightarrow> run + run" where
  "onBuild_checks X e c s0 =
     (let s1 = say (Log ''[Cloudinary] Creating redirects...'') s0;
          host = host_of e;
          s2 = say (Log (''[Cloudinary] Using host: '' @ interpolate host)) s1;
          apiKey = CLOUDINARY_API_KEY e;
          apiSecret = CLOUDINARY_API_SECRET e
      in
        if falsy (folder_of e c) then
          Inl (s2\<lparr>exit := FailPlugin (ERROR_SITE_NAME_REQUIRED X)\<rparr>)
        else if falsy host \<and> deliveryType_of c = ''fetch'' then
          Inl ((say (Log (''[Cloudinary] '' @ ERROR_NETLIFY_HOST_CLI_SUPPORT X))
                 (say (Warn (''[Cloudinary] '' @ ERROR_NETLIFY_HOST_UNKNOWN X)) s2))
               \<lparr>exit := Skipped\<rparr>)
        else if falsy (cloudName_of e c) then
          Inl ((say (Err (''[Cloudinary] '' @ ERROR_CLOUD_NAME_REQUIRED X)) s2)
               \<lparr>exit := FailBuild (ERROR_CLOUD_NAME_REQUIRED X)\<rparr>)
        else if deliveryType_of c = ''upload'' \<and> (falsy apiKey \<or> falsy apiSecret) then
          Inl ((say (Err (''[Cloudinary] '' @ ERROR_API_CREDENTIALS_REQUIRED X)) s2)
               \<lparr>exit := FailBuild (ERROR_API_CREDENTIALS_REQUIRED X)\<rparr>)
        else Inr s2)"

definition configuration :: "env \<Rightarrow> buildConfig \<Rightarrow> cloudinary_config" where
  \<comment> \<open>the argument of \<^verbatim>\<open>configureCloudinary\<close>, lines 114--123 and 298--307\<close>
  "configuration e c =
     \<lparr>cfg_cloudName = cloudName_of e c, cfg_apiKey = CLOUDINARY_API_KEY e,
      cfg_apiSecret = CLOUDINARY_API_SECRET e, cfg_cname = cname c,
      cfg_privateCdn = privateCdn c\<rparr>"

definition show_paths :: "paths \<Rightarrow> string" where
  \<comment> \<open>\<^verbatim>\<open>`${imagesPath}`\<close>: an array prints its elements joined by commas\<close>
  "show_paths p = (case p of OnePath s \<Rightarrow> s | ManyPaths ss \<Rightarrow> join_with '','' ss)"

text \<open>Lines 146--162: the task started for one discovered file.\<close>

definition resolve_image ::
  "externals \<Rightarrow> env \<Rightarrow> string \<Rightarrow> buildConfig \<Rightarrow> string \<Rightarrow> thrown + asset" where
  "resolve_image X e PUBLISH_DIR c img =
     (let publishPath = js_replace img PUBLISH_DIR [] in
      case getCloudinaryUrl X (configuration e c)
             \<lparr>req_deliveryType = deliveryType_of c, req_folder = folder_of e c,
              req_path = publishPath, req_localDir = Some PUBLISH_DIR,
              req_uploadPreset = uploadPreset c, req_remoteHost = host_of e\<rparr> of
        Inl err \<Rightarrow> Inl err
      | Inr cloudinary \<Rightarrow> Inr (asset_of publishPath cloudinary))"

text \<open>
  Lines 178--193. \<^verbatim>\<open>Object.keys(_cloudinaryAssets)\<close> is \<^verbatim>\<open>['images']\<close>; the callbacks
  contain no \<^verbatim>\<open>await\<close>, so each runs to its end when \<^verbatim>\<open>map\<close> calls it.
\<close>

definition cached_assets :: "asset_cache \<Rightarrow> asset list" where
  "cached_assets cache = (case images cache of Unpopulated \<Rightarrow> [] | Populated as \<Rightarrow> as)"

definition upload_rule :: "asset \<Rightarrow> redirect" where
  "upload_rule a =
     \<lparr>r_from = publishPath a @ ''*'', r_to = cloudinaryUrl a, r_status = 302,
      r_force = True\<rparr>"

definition emit_upload :: "run \<Rightarrow> run" where
  "emit_upload s = foldl (\<lambda>s a. unshift (upload_rule a) s) s (cached_assets (assets s))"

text \<open>
  Lines 199--247. For each asset directory the media paths are the configured value
  or the default; \<^verbatim>\<open>forEach\<close> starts one task per media path and does not wait for
  it. A task suspends at \<^verbatim>\<open>await getCloudinaryUrl\<close> and, once resumed, performs both
  \<^verbatim>\<open>unshift\<close> calls without suspending again. A task whose \<^verbatim>\<open>await\<close> rejects adds no
  rule and nothing handles its rejection.
\<close>

definition mediaPaths_of :: "buildConfig \<Rightarrow> asset_directory \<Rightarrow> string list" where
  "mediaPaths_of c d =
     (let mediaPaths =
            (if truthy (buildConfig_get c (inputKey d)) then buildConfig_get c (inputKey d)
             else Some (JString (path d)))
      in case mediaPaths of
           Some (JArray ps) \<Rightarrow> ps
         | Some (JString p) \<Rightarrow> [p]
         | _ \<Rightarrow> [])"

definition cldAssetPath :: "externals \<Rightarrow> string \<Rightarrow> string" where
  "cldAssetPath X mediaPath = ''/'' @ path_join X (PUBLIC_ASSET_PATH X) mediaPath"

definition fetch_request :: "externals \<Rightarrow> env \<Rightarrow> buildConfig \<Rightarrow> string \<Rightarrow> url_request" where
  "fetch_request X e c mediaPath =
     \<lparr>req_deliveryType = ''fetch'', req_folder = folder_of e c,
      req_path = (interpolate (host_of e) @ cldAssetPath X mediaPath) @ ''/:splat'',
      req_localDir = None, req_uploadPreset = uploadPreset c, req_remoteHost = None\<rparr>"

definition passthrough_rule :: "externals \<Rightarrow> string \<Rightarrow> redirect" where
  "passthrough_rule X mediaPath =
     \<lparr>r_from = cldAssetPath X mediaPath @ ''/*'', r_to = mediaPath @ ''/:splat'',
      r_status = 200, r_force = True\<rparr>"

definition redirect_rule :: "string \<Rightarrow> string \<Rightarrow> redirect" where
  "redirect_rule mediaPath assetRedirectUrl =
     \<lparr>r_from = mediaPath @ ''/*'', r_to = assetRedirectUrl, r_status = 302,
      r_force = True\<rparr>"

definition fetch_task :: "externals \<Rightarrow> env \<Rightarrow> buildConfig \<Rightarrow> string \<Rightarrow> run \<Rightarrow> run" where
  "fetch_task X e c mediaPath s =
     (case getCloudinaryUrl X (configuration e c) (fetch_request X e c mediaPath) of
        Inl err \<Rightarrow> s\<lparr>unhandled := unhandled s @ [err]\<rparr>
      | Inr cloudinary \<Rightarrow>
          unshift (redirect_rule mediaPath (cloudinaryUrl cloudinary))
            (unshift (passthrough_rule X mediaPath) s))"

definition fetch_mediaPaths :: "buildConfig \<Rightarrow> string list" where
  "fetch_mediaPaths c = concat (map (mediaPaths_of c) CLOUDINARY_ASSET_DIRECTORIES)"

definition emit_fetch ::
  "externals \<Rightarrow> env \<Rightarrow> buildConfig \<Rightarrow> nat list \<Rightarrow> run \<Rightarrow> run" where
  "emit_fetch X e c sched s =
     foldl (\<lambda>s mediaPath. fetch_task X e c mediaPath s) s
       (in_order sched (fetch_mediaPaths c))"

text \<open>
  The handler, lines 63--251. \<open>sched_resolve\<close> is the order in which the tasks of
  line 146 settle, \<open>sched_emit\<close> the order in which those of line 215 do. The result
  is the state once every task the handler started has settled.
\<close>

definition message_of :: "thrown \<Rightarrow> string" where
  \<comment> \<open>lines 166--170\<close>
  "message_of err = (case err of ErrorObj m \<Rightarrow> m | NonError v \<Rightarrow> v)"

definition onBuild ::
  "externals \<Rightarrow> env \<Rightarrow> string \<Rightarrow> buildConfig \<Rightarrow> nat list \<Rightarrow> nat list \<Rightarrow> run \<Rightarrow> run" where
  "onBuild X e PUBLISH_DIR c sched_resolve sched_emit s0 =
     (case onBuild_checks X e c s0 of
        Inl s \<Rightarrow> s
      | Inr s2 \<Rightarrow>
          (let s3 = s2\<lparr>configured := Some (configuration e c)\<rparr> in
           case imagesPath_of c of
             None \<Rightarrow> s3\<lparr>exit := Threw (ErrorObj (ERROR_INVALID_IMAGES_PATH X))\<rparr>
           | Some images_path \<Rightarrow>
               (let imagesFiles = findAssetsByPath X PUBLISH_DIR images_path;
                    s4 = (if length imagesFiles = 0 then
                            say (Log (''[Cloudinary] Did you update your images path? '' @
                                      ''You can set the imagesPath input in your Netlify config.''))
                              (say (Warn (''[Cloudinary] No image files found in '' @
                                          show_paths images_path)) s3)
                          else s3)
                in case promise_all sched_resolve
                          (map (resolve_image X e PUBLISH_DIR c) imagesFiles) of
                     Inl err \<Rightarrow>
                       (say (ErrValue ''Error'' err) s4)\<lparr>exit := FailBuild (message_of err)\<rparr>
                   | Inr resolved \<Rightarrow>
                       (let s5 = s4\<lparr>assets := (assets s4)\<lparr>images := Populated resolved\<rparr>\<rparr>;
                            s6 = (if deliveryType_of c = ''upload'' then emit_upload s5 else s5);
                            s7 = (if deliveryType_of c = ''fetch''
                                  then emit_fetch X e c sched_emit s6 else s6)
                        in (say (Log ''[Cloudinary] Done.'') s7)\<lparr>exit := Done\<rparr>))))"

section \<open>The post-build handler\<close>

text \<open>Lines 256--296: as in the build handler, without the host check.\<close>

definition onPostBuild_checks :: "externals \<Rightarrow> env \<Rightarrow> buildConfig \<Rightarrow> run \<Rightarrow> run + run" where
  "onPostBuild_checks X e c s0 =
     (let s1 = say (Log ''[Cloudinary] Replacing on-page images with Cloudinary URLs...'') s0;
          host = host_of e;
          s2 = say (Log (''[Cloudinary] Using host: '' @ interpolate host)) s1;
          apiKey = CLOUDINARY_API_KEY e;
          apiSecret = CLOUDINARY_API_SECRET e
      in
        if falsy (folder_of e c) then
          Inl (s2\<lparr>exit := FailPlugin (ERROR_SITE_NAME_REQUIRED X)\<rparr>)
        else if falsy (cloudName_of e c) then
          Inl ((say (Err (''[Cloudinary] '' @ ERROR_CLOUD_NAME_REQUIRED X)) s2)
               \<lparr>exit := FailBuild (ERROR_CLOUD_NAME_REQUIRED X)\<rparr>)
        else if deliveryType_of c = ''upload'' \<and> (falsy apiKey \<or> falsy apiSecret) then
          Inl ((say (Err (''[Cloudinary] '' @ ERROR_API_CREDENTIALS_REQUIRED X)) s2)
               \<lparr>exit := FailBuild (ERROR_API_CREDENTIALS_REQUIRED X)\<rparr>)
        else Inr s2)"

text \<open>
  Lines 314--335: the task started for one page. It reads the file when \<^verbatim>\<open>map\<close>
  calls it, and writes the file once the rewrite has resolved.
\<close>

definition rewrite_options_of ::
  "env \<Rightarrow> string \<Rightarrow> buildConfig \<Rightarrow> asset_cache \<Rightarrow> rewrite_options" where
  "rewrite_options_of e PUBLISH_DIR c cache =
     \<lparr>opt_assets = cache, opt_deliveryType = deliveryType_of c,
      opt_uploadPreset = uploadPreset c, opt_folder = folder_of e c,
      opt_localDir = PUBLISH_DIR, opt_remoteHost = host_of e\<rparr>"

definition rewrite_page ::
  "externals \<Rightarrow> env \<Rightarrow> string \<Rightarrow> buildConfig \<Rightarrow> asset_cache \<Rightarrow> string
     \<Rightarrow> thrown + string \<times> rewrite_result" where
  "rewrite_page X e PUBLISH_DIR c cache page =
     (let sourceHtml = readFileSync X page in
      case updateHtmlImagesToCloudinary X (configuration e c) sourceHtml
             (rewrite_options_of e PUBLISH_DIR c cache) of
        Inl err \<Rightarrow> Inl err
      | Inr r \<Rightarrow> Inr (page, r))"

definition pages_of :: "externals \<Rightarrow> string \<Rightarrow> string list" where
  "pages_of X PUBLISH_DIR = glob_sync X (PUBLISH_DIR @ ''/**/*.html'')"

text \<open>
  The handler, lines 255--346; \<open>sched\<close> is the order in which the page tasks settle.
  A rejected task rejects \<^verbatim>\<open>Promise.all\<close>, which the handler does not catch; the
  other tasks still write their pages.
\<close>

definition onPostBuild ::
  "externals \<Rightarrow> env \<Rightarrow> string \<Rightarrow> buildConfig \<Rightarrow> nat list \<Rightarrow> run \<Rightarrow> run" where
  "onPostBuild X e PUBLISH_DIR c sched s0 =
     (case onPostBuild_checks X e c s0 of
        Inl s \<Rightarrow> s
      | Inr s2 \<Rightarrow>
          (let s3 = s2\<lparr>configured := Some (configuration e c)\<rparr>;
               tasks = map (rewrite_page X e PUBLISH_DIR c (assets s3)) (pages_of X PUBLISH_DIR);
               s4 = s3\<lparr>pages_written := pages_written s3 @
                          map (\<lambda>(page, r). (page, html r)) (fulfilled (in_order sched tasks))\<rparr>
           in case promise_all sched tasks of
                Inl err \<Rightarrow> s4\<lparr>exit := Threw err\<rparr>
              | Inr results \<Rightarrow>
                  (let failed = filter (\<lambda>(page, r). length (errors r) > 0) results in
                   if length failed > 0 then
                     (say (LogReport (map (\<lambda>(page, r). (page, errors r)) failed))
                        (say (Log (''[Cloudinary] Done with '' @ digits (length failed) @
                                   '' errors...'')) s4))\<lparr>exit := Done\<rparr>
                   else (say (Log ''[Cloudinary] Done.'') s4)\<lparr>exit := Done\<rparr>)))"

section \<open>Notions used to state the properties\<close>

text \<open>The files the handler discovers (lines 132--135) and the tasks' values.\<close>

definition imagesFiles :: "externals \<Rightarrow> string \<Rightarrow> buildConfig \<Rightarrow> string list" where
  "imagesFiles X PUBLISH_DIR c =
     (case imagesPath_of c of None \<Rightarrow> [] | Some p \<Rightarrow> findAssetsByPath X PUBLISH_DIR p)"

definition resolved_images :: "externals \<Rightarrow> env \<Rightarrow> string \<Rightarrow> buildConfig \<Rightarrow> asset list" where
  "resolved_images X e PUBLISH_DIR c =
     fulfilled (map (resolve_image X e PUBLISH_DIR c) (imagesFiles X PUBLISH_DIR c))"

definition build_failed :: "exit \<Rightarrow> bool" where
  \<comment> \<open>the handler called \<^verbatim>\<open>utils.build.failBuild\<close>\<close>
  "build_failed x = (case x of FailBuild m \<Rightarrow> True | _ \<Rightarrow> False)"

definition failure_channel_called :: "exit \<Rightarrow> bool" where
  \<comment> \<open>the handler called \<^verbatim>\<open>utils.build.failBuild\<close> or \<^verbatim>\<open>utils.build.failPlugin\<close>\<close>
  "failure_channel_called x =
     (case x of FailBuild m \<Rightarrow> True | FailPlugin m \<Rightarrow> True | _ \<Rightarrow> False)"

definition check_exit :: "run + run \<Rightarrow> exit option" where
  "check_exit r = (case r of Inl s \<Rightarrow> Some (exit s) | Inr s \<Rightarrow> None)"

text \<open>
  The index of a rule in a redirect list is the position of its first occurrence; the
  host evaluates the list from the head and the first match wins.
\<close>

fun index_of :: "'a \<Rightarrow> 'a list \<Rightarrow> nat option" where
  "index_of x [] = None"
| "index_of x (y # ys) = (if x = y then Some 0 else map_option Suc (index_of x ys))"

definition evaluated_before :: "redirect \<Rightarrow> redirect \<Rightarrow> redirect list \<Rightarrow> bool" where
  "evaluated_before a b rs =
     (case (index_of a rs, index_of b rs) of (Some i, Some j) \<Rightarrow> i < j | _ \<Rightarrow> False)"

text \<open>The page tasks' values and the pages that reported errors (line 338).\<close>

definition rewritten ::
  "externals \<Rightarrow> env \<Rightarrow> string \<Rightarrow> buildConfig \<Rightarrow> asset_cache \<Rightarrow> (string \<times> rewrite_result) list" where
  "rewritten X e PUBLISH_DIR c cache =
     fulfilled (map (rewrite_page X e PUBLISH_DIR c cache) (pages_of X PUBLISH_DIR))"

definition with_errors :: "(string \<times> rewrite_result) list \<Rightarrow> (string \<times> rewrite_result) list" where
  "with_errors results = filter (\<lambda>(page, r). length (errors r) > 0) results"

text \<open>
  Modelled from the spec: \<^verbatim>\<open>findAssetsByPath\<close> is defined in \<^verbatim>\<open>lib/util.js\<close>. By
  section 4.1 of the specification it takes a single pattern or a sequence of
  patterns, makes a single one a one-element sequence, resolves the patterns against
  the base directory and returns the files that match, the empty sequence when none
  does. \<open>matches\<close> is the glob matching of a file against a pattern under a base
  directory, \<open>disk\<close> the files that exist.
\<close>

definition patterns :: "paths \<Rightarrow> string list" where
  "patterns p = (case p of OnePath s \<Rightarrow> [s] | ManyPaths ss \<Rightarrow> ss)"

definition findAssetsByPath_spec ::
  "(string \<Rightarrow> string \<Rightarrow> string \<Rightarrow> bool) \<Rightarrow> string list \<Rightarrow> string \<Rightarrow> paths \<Rightarrow> string list" where
  "findAssetsByPath_spec matches disk baseDir p =
     concat (map (\<lambda>pat. filter (matches baseDir pat) disk) (patterns p))"

section \<open>Sample inputs\<close>

text \<open>
  A resolver that rejects one path and otherwise builds a URL from the request, a
  discovery that returns a given list of files, and \<^verbatim>\<open>path.join\<close> on two segments
  that need no normalisation.
\<close>

definition sample_resolver :: "cloudinary_config \<Rightarrow> url_request \<Rightarrow> thrown + cloudinary_result" where
  "sample_resolver cfg r =
     (if req_path r = ''/images/broken.png'' then Inl (ErrorObj ''upload failed'')
      else Inr \<lparr>cloudinaryUrl = ''https://cdn.example/'' @ req_deliveryType r @ ''?src='' @ req_path r,
                publicId = None, width = None, height = None\<rparr>)"

definition sample_externals :: "string list \<Rightarrow> externals" where
  "sample_externals files =
     \<lparr>PUBLIC_ASSET_PATH = ''cld-assets'',
      ERROR_SITE_NAME_REQUIRED = ''site name required'',
      ERROR_NETLIFY_HOST_UNKNOWN = ''host unknown'',
      ERROR_NETLIFY_HOST_CLI_SUPPORT = ''cli support'',
      ERROR_CLOUD_NAME_REQUIRED = ''cloud name required'',
      ERROR_API_CREDENTIALS_REQUIRED = ''api credentials required'',
      ERROR_INVALID_IMAGES_PATH = ''invalid images path'',
      getCloudinaryUrl = sample_resolver,
      findAssetsByPath = (\<lambda>baseDir p. files),
      path_join = (\<lambda>a b. a @ b),
      updateHtmlImagesToCloudinary = (\<lambda>cfg src opts. Inr \<lparr>html = src, errors = []\<rparr>),
      glob_sync = (\<lambda>pat. []),
      readFileSync = (\<lambda>p. [])\<rparr>"

definition sample_env :: env where
  "sample_env =
     \<lparr>CONTEXT = Some ''production'', NETLIFY_HOST = Some ''https://site.example'',
      DEPLOY_PRIME_URL = None, SITE_NAME = Some ''site'',
      CLOUDINARY_CLOUD_NAME = Some ''demo'', CLOUDINARY_API_KEY = None,
      CLOUDINARY_API_SECRET = None\<rparr>"

definition no_buildConfig :: buildConfig where
  "no_buildConfig =
     \<lparr>cloudName = None, cname = None, deliveryType = None, folder = None, imagesPath = None,
      privateCdn = None, loadingStrategy = None, uploadPreset = None\<rparr>"

definition no_assets :: asset_cache where "no_assets = \<lparr>images = Unpopulated\<rparr>"

definition upload_env :: env where
  "upload_env =
     sample_env\<lparr>CLOUDINARY_API_KEY := Some ''key'', CLOUDINARY_API_SECRET := Some ''secret''\<rparr>"

definition upload_buildConfig :: buildConfig where
  "upload_buildConfig = no_buildConfig\<lparr>deliveryType := Some ''upload''\<rparr>"

definition two_images :: "string list" where
  "two_images = [''/dist/images/a.png'', ''/dist/images/b.png'']"

definition two_paths_buildConfig :: buildConfig where
  "two_paths_buildConfig = no_buildConfig\<lparr>imagesPath := Some (ManyPaths [''/images'', ''/media''])\<rparr>"

text \<open>A file matches a pattern when it lies in the directory the pattern names.\<close>

definition sample_matches :: "string \<Rightarrow> string \<Rightarrow> string \<Rightarrow> bool" where
  "sample_matches baseDir pat f = prefix (baseDir @ pat @ ''/'') f"

definition disk_externals :: "string list \<Rightarrow> externals" where
  "disk_externals disk =
     (sample_externals [])\<lparr>findAssetsByPath := findAssetsByPath_spec sample_matches disk\<rparr>"

text \<open>Two pages, one of which refers to an image the rewrite cannot resolve.\<close>

definition sample_rewrite ::
  "cloudinary_config \<Rightarrow> string \<Rightarrow> rewrite_options \<Rightarrow> thrown + rewrite_result" where
  "sample_rewrite cfg src opts =
     (if src = ''<img src=missing.png>''
      then Inr \<lparr>html = src, errors = [''missing.png: not found'']\<rparr>
      else Inr \<lparr>html = ''<img src=https://cdn.example/a.png>'', errors = []\<rparr>)"

definition page_externals :: externals where
  "page_externals =
     (sample_externals [])
       \<lparr>updateHtmlImagesToCloudinary := sample_rewrite,
        glob_sync := (\<lambda>pat. if pat = ''/dist/**/*.html''
                             then [''/dist/index.html'', ''/dist/about.html''] else []),
        readFileSync := (\<lambda>p. if p = ''/dist/about.html'' then ''<img src=missing.png>''
                              else ''<img src=/images/a.png>'')\<rparr>"

section \<open>Auxiliary facts\<close>

lemmas sample_defs = sample_externals_def sample_env_def no_buildConfig_def no_assets_def
  sample_resolver_def start_def

lemmas value_defs = falsy_def js_or_def interpolate_def host_of_def deliveryType_of_def
  folder_of_def cloudName_of_def

lemmas build_defs = onBuild_checks_def Let_def say_def imagesFiles_def
  resolve_image_def configuration_def asset_of_def message_of_def

lemmas emit_defs = emit_fetch_def fetch_mediaPaths_def mediaPaths_of_def buildConfig_get_def
  truthy_def paths_val_def CLOUDINARY_ASSET_DIRECTORIES_def in_order_def fetch_task_def
  fetch_request_def cldAssetPath_def passthrough_rule_def redirect_rule_def unshift_def
  promise_all_def

lemma imagesPath_of_eq:
  "imagesPath_of c = Some (case imagesPath c of None \<Rightarrow> OnePath ''/images'' | Some p \<Rightarrow> p)"
  by (simp add: imagesPath_of_def CLOUDINARY_ASSET_DIRECTORIES_def split: option.split)

lemma onBuild_checks_exit:
  "onBuild_checks X e c s0 = Inl s \<Longrightarrow> exit s \<noteq> Threw t"
  by (auto simp: onBuild_checks_def Let_def split: if_splits)

lemma credentials_irrelevant:
  "folder_of (e\<lparr>CLOUDINARY_API_KEY := k, CLOUDINARY_API_SECRET := s\<rparr>) c = folder_of e c"
  "host_of (e\<lparr>CLOUDINARY_API_KEY := k, CLOUDINARY_API_SECRET := s\<rparr>) = host_of e"
  "cloudName_of (e\<lparr>CLOUDINARY_API_KEY := k, CLOUDINARY_API_SECRET := s\<rparr>) c = cloudName_of e c"
  by (simp_all add: folder_of_def host_of_def cloudName_of_def split: option.splits)

lemma host_irrelevant:
  "folder_of (e\<lparr>CONTEXT := x, NETLIFY_HOST := y, DEPLOY_PRIME_URL := z\<rparr>) c = folder_of e c"
  "cloudName_of (e\<lparr>CONTEXT := x, NETLIFY_HOST := y, DEPLOY_PRIME_URL := z\<rparr>) c = cloudName_of e c"
  by (simp_all add: folder_of_def cloudName_of_def split: option.splits)

lemma fetch_checks:
  assumes "deliveryType_of c = ''fetch''"
  shows "onBuild_checks X (e\<lparr>CLOUDINARY_API_KEY := k, CLOUDINARY_API_SECRET := s\<rparr>) c s0 =
           onBuild_checks X e c s0"
    and "isl (onBuild_checks X e c s0) \<longleftrightarrow>
           falsy (folder_of e c) \<or> falsy (host_of e) \<or> falsy (cloudName_of e c)"
  using assms by (simp_all add: onBuild_checks_def Let_def credentials_irrelevant)

lemma upload_checks:
  assumes "deliveryType_of c = ''upload''"
  shows "check_exit (onBuild_checks X (e\<lparr>CONTEXT := x, NETLIFY_HOST := y, DEPLOY_PRIME_URL := z\<rparr>) c s0) =
           check_exit (onBuild_checks X e c s0)"
    and "isl (onBuild_checks X e c s0) \<longleftrightarrow>
           falsy (folder_of e c) \<or> falsy (cloudName_of e c) \<or>
           falsy (CLOUDINARY_API_KEY e) \<or> falsy (CLOUDINARY_API_SECRET e)"
  using assms by (simp_all add: onBuild_checks_def Let_def check_exit_def host_irrelevant)

subsection \<open>Settling of tasks\<close>

lemma first_rejection_mem: "first_rejection rs = Some e \<Longrightarrow> Inl e \<in> set rs"
  by (induction rs rule: first_rejection.induct) auto

lemma first_rejection_None: "first_rejection rs = None \<longleftrightarrow> (\<forall>r\<in>set rs. \<not> isl r)"
  by (induction rs rule: first_rejection.induct) auto

lemma fulfilled_all: "\<forall>r\<in>set rs. \<not> isl r \<Longrightarrow> map Inr (fulfilled rs) = rs"
  by (induction rs rule: fulfilled.induct) auto

lemma in_order_subset: "set (in_order sched xs) \<subseteq> set xs"
  by (auto simp: in_order_def)

lemma promise_all_Inl: "promise_all sched rs = Inl e \<Longrightarrow> Inl e \<in> set rs"
  using in_order_subset [of sched rs]
  by (auto simp: promise_all_def split: option.splits dest: first_rejection_mem)

lemma promise_all_rejects:
  assumes "\<exists>r\<in>set rs. isl r"
  shows "\<exists>e. promise_all sched rs = Inl e"
proof -
  from assms have "first_rejection rs \<noteq> None" by (simp add: first_rejection_None)
  then show ?thesis by (auto simp: promise_all_def split: option.splits)
qed

lemma promise_all_resolves:
  assumes "\<forall>r\<in>set rs. \<not> isl r"
  shows "promise_all sched rs = Inr (fulfilled rs)"
proof -
  from assms have a: "first_rejection rs = None" by (simp add: first_rejection_None)
  from assms in_order_subset [of sched rs] have "\<forall>r\<in>set (in_order sched rs). \<not> isl r" by blast
  then have "first_rejection (in_order sched rs) = None" by (simp add: first_rejection_None)
  with a show ?thesis by (simp add: promise_all_def)
qed

lemma valid_schedule_set:
  assumes "valid_schedule n sched"
  shows "set sched = {..<n}"
proof -
  from assms have d: "distinct sched" and l: "length sched = n" and b: "set sched \<subseteq> {..<n}"
    by (auto simp: valid_schedule_def list_all_iff)
  from d l have "card (set sched) = card {..<n}" by (simp add: distinct_card)
  with b show ?thesis by (simp add: card_subset_eq)
qed

lemma in_order_set:
  assumes "valid_schedule (length xs) sched"
  shows "set (in_order sched xs) = set xs"
proof -
  from assms have s: "set sched = {..<length xs}" by (rule valid_schedule_set)
  then have "filter (\<lambda>i. i < length xs) sched = sched" by (auto intro: filter_True)
  then have "set (in_order sched xs) = (\<lambda>i. xs ! i) ` {..<length xs}"
    by (simp add: in_order_def s)
  also have "\<dots> = set xs" by (auto simp: set_conv_nth)
  finally show ?thesis .
qed

subsection \<open>Redirect emission\<close>

lemma foldl_unshift:
  "foldl (\<lambda>s a. unshift (f a) s) s as = s\<lparr>redirects := rev (map f as) @ redirects s\<rparr>"
  by (induction as arbitrary: s) (simp_all add: unshift_def)

lemma emit_upload_eq:
  "emit_upload s = s\<lparr>redirects := rev (map upload_rule (cached_assets (assets s))) @ redirects s\<rparr>"
  by (simp add: emit_upload_def foldl_unshift)

lemma fetch_task_keeps:
  "assets (fetch_task X e c m s) = assets s"
  "console (fetch_task X e c m s) = console s"
  by (simp_all add: fetch_task_def unshift_def split: sum.splits)

lemma foldl_fetch_task_keeps:
  "assets (foldl (\<lambda>s m. fetch_task X e c m s) s ms) = assets s"
  "console (foldl (\<lambda>s m. fetch_task X e c m s) s ms) = console s"
  by (induction ms arbitrary: s) (simp_all add: fetch_task_keeps)

lemma emit_fetch_keeps:
  "assets (emit_fetch X e c sched s) = assets s"
  "console (emit_fetch X e c sched s) = console s"
  by (simp_all add: emit_fetch_def foldl_fetch_task_keeps)

subsection \<open>The build handler, outcome by outcome\<close>

lemma js_replace_prefix: "prefix p s \<Longrightarrow> js_replace s p [] = drop (length p) s"
  by (cases s) simp_all

lemma resolve_image_publishPath:
  "resolve_image X e PUBLISH_DIR c img = Inr a \<Longrightarrow> publishPath a = js_replace img PUBLISH_DIR []"
  by (auto simp: resolve_image_def Let_def asset_of_def split: sum.splits)

lemma resolved_images_length:
  assumes "\<forall>img\<in>set (imagesFiles X PUBLISH_DIR c). \<not> isl (resolve_image X e PUBLISH_DIR c img)"
  shows "length (resolved_images X e PUBLISH_DIR c) = length (imagesFiles X PUBLISH_DIR c)"
proof -
  from assms have "map Inr (resolved_images X e PUBLISH_DIR c) =
      map (resolve_image X e PUBLISH_DIR c) (imagesFiles X PUBLISH_DIR c)"
    unfolding resolved_images_def by (intro fulfilled_all) simp
  then show ?thesis using map_eq_imp_length_eq by fastforce
qed

lemma resolved_images_nth:
  assumes "\<forall>img\<in>set (imagesFiles X PUBLISH_DIR c). \<not> isl (resolve_image X e PUBLISH_DIR c img)"
    and "i < length (imagesFiles X PUBLISH_DIR c)"
  shows "resolve_image X e PUBLISH_DIR c (imagesFiles X PUBLISH_DIR c ! i) =
           Inr (resolved_images X e PUBLISH_DIR c ! i)"
proof -
  from assms(1) have eq: "map Inr (resolved_images X e PUBLISH_DIR c) =
      map (resolve_image X e PUBLISH_DIR c) (imagesFiles X PUBLISH_DIR c)"
    unfolding resolved_images_def by (intro fulfilled_all) simp
  have len: "length (resolved_images X e PUBLISH_DIR c) = length (imagesFiles X PUBLISH_DIR c)"
    using assms(1) by (rule resolved_images_length)
  have "map (resolve_image X e PUBLISH_DIR c) (imagesFiles X PUBLISH_DIR c) ! i =
        map Inr (resolved_images X e PUBLISH_DIR c) ! i" by (simp add: eq)
  with assms(2) len show ?thesis by simp
qed

lemma onBuild_checks_keeps:
  assumes "onBuild_checks X e c s0 = Inr s2"
  shows "redirects s2 = redirects s0" "assets s2 = assets s0"
    "console s2 = console s0 @ [Log ''[Cloudinary] Creating redirects...'',
        Log (''[Cloudinary] Using host: '' @ interpolate (host_of e))]"
  using assms by (auto simp: onBuild_checks_def Let_def say_def split: if_splits)

lemma onBuild_rejected:
  assumes "onBuild_checks X e c s0 = Inr s2"
    and "promise_all sched_resolve
           (map (resolve_image X e PUBLISH_DIR c) (imagesFiles X PUBLISH_DIR c)) = Inl err"
  shows "exit (onBuild X e PUBLISH_DIR c sched_resolve sched_emit s0) = FailBuild (message_of err)"
    and "redirects (onBuild X e PUBLISH_DIR c sched_resolve sched_emit s0) = redirects s0"
    and "assets (onBuild X e PUBLISH_DIR c sched_resolve sched_emit s0) = assets s0"
  using assms onBuild_checks_keeps [OF assms(1)]
  by (simp_all add: onBuild_def imagesFiles_def imagesPath_of_eq Let_def say_def)

lemma rules_differ:
  "redirect_rule m u \<noteq> passthrough_rule X k"
  "passthrough_rule X k \<noteq> redirect_rule m u"
  "m \<noteq> k \<Longrightarrow> redirect_rule m u \<noteq> redirect_rule k v"
  "m \<noteq> k \<Longrightarrow> passthrough_rule X m \<noteq> passthrough_rule X k"
  by (simp_all add: redirect_rule_def passthrough_rule_def)

lemma fetch_tasks_order:
  assumes "m \<in> set ms"
    and "getCloudinaryUrl X (configuration e c) (fetch_request X e c m) = Inr cl"
  shows "\<exists>i. index_of (redirect_rule m (cloudinaryUrl cl))
                (redirects (foldl (\<lambda>s mediaPath. fetch_task X e c mediaPath s) s ms)) = Some i \<and>
              index_of (passthrough_rule X m)
                (redirects (foldl (\<lambda>s mediaPath. fetch_task X e c mediaPath s) s ms)) = Some (Suc i)"
  using assms(1)
proof (induction ms rule: rev_induct)
  case Nil
  then show ?case by simp
next
  case (snoc k ks)
  let ?before = "foldl (\<lambda>s mediaPath. fetch_task X e c mediaPath s) s ks"
  show ?case
  proof (cases "k = m")
    case True
    with assms(2) show ?thesis
      by (simp add: fetch_task_def unshift_def rules_differ)
  next
    case False
    with snoc.prems have "m \<in> set ks" by simp
    then obtain i where i: "index_of (redirect_rule m (cloudinaryUrl cl)) (redirects ?before) = Some i"
        "index_of (passthrough_rule X m) (redirects ?before) = Some (Suc i)"
      using snoc.IH by blast
    from False have ne: "m \<noteq> k" by simp
    show ?thesis
    proof (cases "getCloudinaryUrl X (configuration e c) (fetch_request X e c k)")
      case (Inl err)
      with i show ?thesis by (simp add: fetch_task_def)
    next
      case (Inr ck)
      with i ne show ?thesis
        by (simp add: fetch_task_def unshift_def rules_differ)
    qed
  qed
qed

lemma onBuild_resolved:
  assumes "onBuild_checks X e c s0 = Inr s2"
    and "\<forall>img\<in>set (imagesFiles X PUBLISH_DIR c). \<not> isl (resolve_image X e PUBLISH_DIR c img)"
  shows "exit (onBuild X e PUBLISH_DIR c sched_resolve sched_emit s0) = Done"
    and "assets (onBuild X e PUBLISH_DIR c sched_resolve sched_emit s0) =
           (assets s0)\<lparr>images := Populated (resolved_images X e PUBLISH_DIR c)\<rparr>"
    and "deliveryType_of c = ''upload'' \<Longrightarrow>
         redirects (onBuild X e PUBLISH_DIR c sched_resolve sched_emit s0) =
           rev (map upload_rule (resolved_images X e PUBLISH_DIR c)) @ redirects s0"
proof -
  let ?tasks = "map (resolve_image X e PUBLISH_DIR c) (imagesFiles X PUBLISH_DIR c)"
  from assms(2) have "\<forall>r\<in>set ?tasks. \<not> isl r" by simp
  then have p: "promise_all sched_resolve ?tasks = Inr (resolved_images X e PUBLISH_DIR c)"
    unfolding resolved_images_def by (rule promise_all_resolves)
  note k = onBuild_checks_keeps [OF assms(1)]
  show "exit (onBuild X e PUBLISH_DIR c sched_resolve sched_emit s0) = Done"
    using assms(1) p by (simp add: onBuild_def imagesFiles_def imagesPath_of_eq Let_def)
  show "assets (onBuild X e PUBLISH_DIR c sched_resolve sched_emit s0) =
           (assets s0)\<lparr>images := Populated (resolved_images X e PUBLISH_DIR c)\<rparr>"
    using assms(1) p k
    by (simp add: onBuild_def imagesFiles_def imagesPath_of_eq Let_def say_def
        emit_fetch_keeps emit_upload_eq)
  show "redirects (onBuild X e PUBLISH_DIR c sched_resolve sched_emit s0) =
           rev (map upload_rule (resolved_images X e PUBLISH_DIR c)) @ redirects s0"
    if "deliveryType_of c = ''upload''"
    using assms(1) p k that
    by (simp add: onBuild_def imagesFiles_def imagesPath_of_eq Let_def say_def
        emit_upload_eq cached_assets_def)
qed

lemma fetch_redirects_cong:
  "redirects s = redirects s' \<Longrightarrow>
   redirects (foldl (\<lambda>s m. fetch_task X e c m s) s ms) =
   redirects (foldl (\<lambda>s m. fetch_task X e c m s) s' ms)"
proof (induction ms arbitrary: s s')
  case Nil
  then show ?case by simp
next
  case (Cons m ms)
  have "redirects (fetch_task X e c m s) = redirects (fetch_task X e c m s')"
    using Cons.prems by (simp add: fetch_task_def unshift_def split: sum.splits)
  from Cons.IH [OF this] show ?case by simp
qed

lemma onBuild_resolved_fetch:
  assumes "onBuild_checks X e c s0 = Inr s2"
    and "\<forall>img\<in>set (imagesFiles X PUBLISH_DIR c). \<not> isl (resolve_image X e PUBLISH_DIR c img)"
    and "deliveryType_of c = ''fetch''"
  shows "redirects (onBuild X e PUBLISH_DIR c sched_resolve sched_emit s0) =
           redirects (emit_fetch X e c sched_emit s0)"
proof -
  let ?tasks = "map (resolve_image X e PUBLISH_DIR c) (imagesFiles X PUBLISH_DIR c)"
  from assms(2) have "\<forall>r\<in>set ?tasks. \<not> isl r" by simp
  then have p: "promise_all sched_resolve ?tasks = Inr (resolved_images X e PUBLISH_DIR c)"
    unfolding resolved_images_def by (rule promise_all_resolves)
  note k = onBuild_checks_keeps [OF assms(1)]
  have "redirects (onBuild X e PUBLISH_DIR c sched_resolve sched_emit s0) =
          redirects (foldl (\<lambda>s m. fetch_task X e c m s)
            ((if length (imagesFiles X PUBLISH_DIR c) = 0 then
                say (Log (''[Cloudinary] Did you update your images path? '' @
                          ''You can set the imagesPath input in your Netlify config.''))
                  (say (Warn (''[Cloudinary] No image files found in '' @
                         show_paths (case imagesPath c of None \<Rightarrow> OnePath ''/images'' | Some p \<Rightarrow> p)))
                     (s2\<lparr>configured := Some (configuration e c)\<rparr>))
              else s2\<lparr>configured := Some (configuration e c)\<rparr>)
             \<lparr>assets := (assets s2)\<lparr>images := Populated (resolved_images X e PUBLISH_DIR c)\<rparr>\<rparr>)
            (in_order sched_emit (fetch_mediaPaths c)))" (is "_ = redirects (foldl _ ?s5 _)")
    using assms(1,3) p
    by (simp add: onBuild_def imagesFiles_def imagesPath_of_eq Let_def say_def emit_fetch_def)
  also have "\<dots> = redirects (foldl (\<lambda>s m. fetch_task X e c m s) s0
            (in_order sched_emit (fetch_mediaPaths c)))"
  proof (rule fetch_redirects_cong)
    show "redirects ?s5 = redirects s0" using k(1) by (simp add: say_def)
  qed
  finally show ?thesis unfolding emit_fetch_def .
qed

lemma onBuild_resolved_console:
  assumes "onBuild_checks X e c s0 = Inr s2"
    and "\<forall>img\<in>set (imagesFiles X PUBLISH_DIR c). \<not> isl (resolve_image X e PUBLISH_DIR c img)"
    and "imagesPath_of c = Some p"
  shows "console (onBuild X e PUBLISH_DIR c sched_resolve sched_emit s0) =
           console s0 @
           [Log ''[Cloudinary] Creating redirects...'',
            Log (''[Cloudinary] Using host: '' @ interpolate (host_of e))] @
           (if imagesFiles X PUBLISH_DIR c = [] then
              [Warn (''[Cloudinary] No image files found in '' @ show_paths p),
               Log (''[Cloudinary] Did you update your images path? '' @
                    ''You can set the imagesPath input in your Netlify config.'')]
            else []) @
           [Log ''[Cloudinary] Done.'']"
proof -
  let ?tasks = "map (resolve_image X e PUBLISH_DIR c) (imagesFiles X PUBLISH_DIR c)"
  from assms(2) have "\<forall>r\<in>set ?tasks. \<not> isl r" by simp
  then have p: "promise_all sched_resolve ?tasks = Inr (resolved_images X e PUBLISH_DIR c)"
    unfolding resolved_images_def by (rule promise_all_resolves)
  note k = onBuild_checks_keeps [OF assms(1)]
  show ?thesis
    using assms(1,3) p k(3)
    by (simp add: onBuild_def imagesFiles_def Let_def say_def emit_fetch_keeps emit_upload_eq)
qed

subsection \<open>The post-build handler, outcome by outcome\<close>

lemma onPostBuild_checks_keeps:
  assumes "onPostBuild_checks X e c s0 = Inr s2"
  shows "assets s2 = assets s0" "pages_written s2 = pages_written s0"
    "console s2 = console s0 @
       [Log ''[Cloudinary] Replacing on-page images with Cloudinary URLs...'',
        Log (''[Cloudinary] Using host: '' @ interpolate (host_of e))]"
  using assms by (auto simp: onPostBuild_checks_def Let_def say_def split: if_splits)

lemma set_fulfilled: "set (fulfilled rs) = {v. Inr v \<in> set rs}"
  by (induction rs rule: fulfilled.induct) auto

lemma fulfilled_pages:
  "\<forall>x\<in>set xs. \<exists>r. f x = Inr (x, r) \<Longrightarrow> map fst (fulfilled (map f xs)) = xs"
  by (induction xs) auto

lemma rewrite_page_page:
  "\<not> isl (rewrite_page X e PUBLISH_DIR c cache page) \<Longrightarrow>
   \<exists>r. rewrite_page X e PUBLISH_DIR c cache page = Inr (page, r)"
  by (auto simp: rewrite_page_def Let_def split: sum.splits)

lemma onPostBuild_exit:
  assumes "onPostBuild_checks X e c s0 = Inr s2"
  shows "\<not> failure_channel_called (exit (onPostBuild X e PUBLISH_DIR c sched s0))"
  using assms
  by (simp add: onPostBuild_def Let_def failure_channel_called_def split: sum.splits)

lemma onPostBuild_resolved:
  assumes "onPostBuild_checks X e c s0 = Inr s2"
    and "\<forall>page\<in>set (pages_of X PUBLISH_DIR). \<not> isl (rewrite_page X e PUBLISH_DIR c (assets s0) page)"
  shows "exit (onPostBuild X e PUBLISH_DIR c sched s0) = Done"
    and "pages_written (onPostBuild X e PUBLISH_DIR c sched s0) =
           pages_written s0 @ map (\<lambda>(page, r). (page, html r))
             (fulfilled (in_order sched
                (map (rewrite_page X e PUBLISH_DIR c (assets s0)) (pages_of X PUBLISH_DIR))))"
    and "console (onPostBuild X e PUBLISH_DIR c sched s0) =
           console s0 @
           [Log ''[Cloudinary] Replacing on-page images with Cloudinary URLs...'',
            Log (''[Cloudinary] Using host: '' @ interpolate (host_of e))] @
           (if with_errors (rewritten X e PUBLISH_DIR c (assets s0)) = [] then
              [Log ''[Cloudinary] Done.'']
            else
              [Log (''[Cloudinary] Done with '' @
                    digits (length (with_errors (rewritten X e PUBLISH_DIR c (assets s0)))) @
                    '' errors...''),
               LogReport (map (\<lambda>(page, r). (page, errors r))
                           (with_errors (rewritten X e PUBLISH_DIR c (assets s0))))])"
proof -
  let ?tasks = "map (rewrite_page X e PUBLISH_DIR c (assets s0)) (pages_of X PUBLISH_DIR)"
  from assms(2) have "\<forall>r\<in>set ?tasks. \<not> isl r" by simp
  then have p: "promise_all sched ?tasks = Inr (rewritten X e PUBLISH_DIR c (assets s0))"
    unfolding rewritten_def by (rule promise_all_resolves)
  note k = onPostBuild_checks_keeps [OF assms(1)]
  show "exit (onPostBuild X e PUBLISH_DIR c sched s0) = Done"
    using assms(1) p k(1) by (simp add: onPostBuild_def Let_def)
  show "pages_written (onPostBuild X e PUBLISH_DIR c sched s0) =
           pages_written s0 @ map (\<lambda>(page, r). (page, html r)) (fulfilled (in_order sched ?tasks))"
    using assms(1) p k(1,2) by (simp add: onPostBuild_def Let_def say_def)
  show "console (onPostBuild X e PUBLISH_DIR c sched s0) =
           console s0 @
           [Log ''[Cloudinary] Replacing on-page images with Cloudinary URLs...'',
            Log (''[Cloudinary] Using host: '' @ interpolate (host_of e))] @
           (if with_errors (rewritten X e PUBLISH_DIR c (assets s0)) = [] then
              [Log ''[Cloudinary] Done.'']
            else
              [Log (''[Cloudinary] Done with '' @
                    digits (length (with_errors (rewritten X e PUBLISH_DIR c (assets s0)))) @
                    '' errors...''),
               LogReport (map (\<lambda>(page, r). (page, errors r))
                           (with_errors (rewritten X e PUBLISH_DIR c (assets s0))))])"
    using assms(1) p k(1,3) by (simp add: onPostBuild_def Let_def say_def with_errors_def)
qed

section \<open>The precondition checks of the build handler\<close>

text \<open>
  C10. For every build configuration of the schema's type, the images path seen after
  destructuring is defined: it is the configured value, or \<^verbatim>\<open>'/images'\<close> from the
  lookup in \<^verbatim>\<open>CLOUDINARY_ASSET_DIRECTORIES\<close>. The handler therefore never leaves
  through the \<^verbatim>\<open>throw\<close> of line 129 (nor through any other throw).
\<close>

theorem imagesPath_always_defined:
  "imagesPath_of c = Some (case imagesPath c of None \<Rightarrow> OnePath ''/images'' | Some p \<Rightarrow> p) \<and>
   exit (onBuild X e PUBLISH_DIR c sched_resolve sched_emit s0) \<noteq> Threw t"
  by (auto simp: imagesPath_of_eq onBuild_def Let_def dest: onBuild_checks_exit split: sum.splits)

text \<open>
  C5, as the claim states it: a missing folder name is a hard build failure. With no
  folder in the configuration and no \<^verbatim>\<open>SITE_NAME\<close>, the handler does not call
  \<^verbatim>\<open>utils.build.failBuild\<close>.
\<close>

theorem missing_folder_is_not_build_failure:
  "falsy (folder_of (sample_env\<lparr>SITE_NAME := None\<rparr>) no_buildConfig) \<and>
   \<not> build_failed (exit (onBuild (sample_externals []) (sample_env\<lparr>SITE_NAME := None\<rparr>)
        ''/dist'' no_buildConfig [] [0] (start [] no_assets)))"
  by (simp add: onBuild_def onBuild_checks_def Let_def sample_defs value_defs build_failed_def)

text \<open>
  C5, amended. The checks run in the order: folder present, then (under fetch) host
  known, then cloud name present, then (under upload) API key and secret present, and
  the first failing check determines the exit. A missing folder name ends the handler
  with \<^verbatim>\<open>utils.build.failPlugin(ERROR_SITE_NAME_REQUIRED)\<close>, the plugin-failure channel;
  a missing cloud name ends it with \<^verbatim>\<open>utils.build.failBuild(ERROR_CLOUD_NAME_REQUIRED)\<close>;
  missing credentials under upload end it with
  \<^verbatim>\<open>utils.build.failBuild(ERROR_API_CREDENTIALS_REQUIRED)\<close>.
\<close>

theorem onBuild_first_failing_check:
  "(falsy (folder_of e c) \<longrightarrow>
      exit (onBuild X e PUBLISH_DIR c sched_resolve sched_emit s0) =
        FailPlugin (ERROR_SITE_NAME_REQUIRED X)) \<and>
   (\<not> falsy (folder_of e c) \<and> falsy (host_of e) \<and> deliveryType_of c = ''fetch'' \<longrightarrow>
      exit (onBuild X e PUBLISH_DIR c sched_resolve sched_emit s0) = Skipped) \<and>
   (\<not> falsy (folder_of e c) \<and> \<not> (falsy (host_of e) \<and> deliveryType_of c = ''fetch'') \<and>
    falsy (cloudName_of e c) \<longrightarrow>
      exit (onBuild X e PUBLISH_DIR c sched_resolve sched_emit s0) =
        FailBuild (ERROR_CLOUD_NAME_REQUIRED X)) \<and>
   (\<not> falsy (folder_of e c) \<and> \<not> falsy (cloudName_of e c) \<and> deliveryType_of c = ''upload'' \<and>
    (falsy (CLOUDINARY_API_KEY e) \<or> falsy (CLOUDINARY_API_SECRET e)) \<longrightarrow>
      exit (onBuild X e PUBLISH_DIR c sched_resolve sched_emit s0) =
        FailBuild (ERROR_API_CREDENTIALS_REQUIRED X))"
  by (simp add: onBuild_def onBuild_checks_def Let_def)

text \<open>
  C5, amended, at four inputs, one per check: everything missing (the folder check
  wins), folder present but host and cloud name missing under fetch (the host check
  wins), only the cloud name missing, and upload without credentials.
\<close>

theorem onBuild_first_failing_check_witness:
  "exit (onBuild (sample_externals [])
          (sample_env\<lparr>SITE_NAME := None, NETLIFY_HOST := None, CLOUDINARY_CLOUD_NAME := None\<rparr>)
          ''/dist'' no_buildConfig [] [0] (start [] no_assets)) = FailPlugin ''site name required'' \<and>
   exit (onBuild (sample_externals [])
          (sample_env\<lparr>NETLIFY_HOST := None, CLOUDINARY_CLOUD_NAME := None\<rparr>)
          ''/dist'' no_buildConfig [] [0] (start [] no_assets)) = Skipped \<and>
   exit (onBuild (sample_externals []) (sample_env\<lparr>CLOUDINARY_CLOUD_NAME := None\<rparr>)
          ''/dist'' no_buildConfig [] [0] (start [] no_assets)) = FailBuild ''cloud name required'' \<and>
   exit (onBuild (sample_externals []) sample_env
          ''/dist'' (no_buildConfig\<lparr>deliveryType := Some ''upload''\<rparr>) [] [0] (start [] no_assets))
     = FailBuild ''api credentials required''"
  using
    onBuild_first_failing_check
      [where X = "sample_externals []" and c = no_buildConfig and PUBLISH_DIR = "''/dist''"
         and sched_resolve = "[]" and sched_emit = "[0]" and ?s0.0 = "start [] no_assets"
         and e = "sample_env\<lparr>SITE_NAME := None, NETLIFY_HOST := None,
                             CLOUDINARY_CLOUD_NAME := None\<rparr>"]
    onBuild_first_failing_check
      [where X = "sample_externals []" and c = no_buildConfig and PUBLISH_DIR = "''/dist''"
         and sched_resolve = "[]" and sched_emit = "[0]" and ?s0.0 = "start [] no_assets"
         and e = "sample_env\<lparr>NETLIFY_HOST := None, CLOUDINARY_CLOUD_NAME := None\<rparr>"]
    onBuild_first_failing_check
      [where X = "sample_externals []" and c = no_buildConfig and PUBLISH_DIR = "''/dist''"
         and sched_resolve = "[]" and sched_emit = "[0]" and ?s0.0 = "start [] no_assets"
         and e = "sample_env\<lparr>CLOUDINARY_CLOUD_NAME := None\<rparr>"]
    onBuild_first_failing_check
      [where X = "sample_externals []"
         and c = "no_buildConfig\<lparr>deliveryType := Some ''upload''\<rparr>"
         and PUBLISH_DIR = "''/dist''"
         and sched_resolve = "[]" and sched_emit = "[0]" and ?s0.0 = "start [] no_assets"
         and e = sample_env]
  by (simp add: sample_defs value_defs)

text \<open>
  C6, as the claim states it: with the host unknown under fetch, no failure channel is
  called. When the folder name is missing as well, the folder check comes first and
  the handler calls \<^verbatim>\<open>utils.build.failPlugin\<close>.
\<close>

theorem host_unknown_without_folder_fails_plugin:
  "falsy (host_of (sample_env\<lparr>SITE_NAME := None, NETLIFY_HOST := None\<rparr>)) \<and>
   deliveryType_of no_buildConfig = ''fetch'' \<and>
   failure_channel_called
     (exit (onBuild (sample_externals []) (sample_env\<lparr>SITE_NAME := None, NETLIFY_HOST := None\<rparr>)
        ''/dist'' no_buildConfig [] [0] (start [] no_assets)))"
  by (simp add: onBuild_def onBuild_checks_def Let_def sample_defs value_defs
      failure_channel_called_def)

text \<open>
  C6, amended. When the folder name is present, the host is unknown and the delivery
  type is fetch, the handler logs the warning and the hint and returns: the final
  state is the initial one with four console lines added, so no failure channel is
  called, nothing is configured or resolved, and the redirect list and the asset
  cache are as they were.
\<close>

theorem onBuild_host_unknown_skip:
  "\<not> falsy (folder_of e c) \<Longrightarrow> falsy (host_of e) \<Longrightarrow> deliveryType_of c = ''fetch'' \<Longrightarrow>
   onBuild X e PUBLISH_DIR c sched_resolve sched_emit s0 =
     s0\<lparr>exit := Skipped,
        console := console s0 @
          [Log ''[Cloudinary] Creating redirects...'',
           Log (''[Cloudinary] Using host: '' @ interpolate (host_of e)),
           Warn (''[Cloudinary] '' @ ERROR_NETLIFY_HOST_UNKNOWN X),
           Log (''[Cloudinary] '' @ ERROR_NETLIFY_HOST_CLI_SUPPORT X)]\<rparr>"
  by (simp add: onBuild_def onBuild_checks_def Let_def say_def)

text \<open>C6, amended, on a production build whose \<^verbatim>\<open>NETLIFY_HOST\<close> is not set.\<close>

theorem onBuild_host_unknown_skip_witness:
  "\<not> falsy (folder_of (sample_env\<lparr>NETLIFY_HOST := None\<rparr>) no_buildConfig) \<and>
   falsy (host_of (sample_env\<lparr>NETLIFY_HOST := None\<rparr>)) \<and>
   deliveryType_of no_buildConfig = ''fetch'' \<and>
   onBuild (sample_externals [''/dist/images/a.png'']) (sample_env\<lparr>NETLIFY_HOST := None\<rparr>)
      ''/dist'' no_buildConfig [0] [0] (start [] no_assets) =
     \<lparr>exit = Skipped,
      console = [Log ''[Cloudinary] Creating redirects...'',
                 Log ''[Cloudinary] Using host: undefined'',
                 Warn ''[Cloudinary] host unknown'',
                 Log ''[Cloudinary] cli support''],
      redirects = [], assets = no_assets, configured = None, pages_written = [],
      unhandled = []\<rparr>"
proof -
  let ?e = "sample_env\<lparr>NETLIFY_HOST := None\<rparr>"
  have h1: "\<not> falsy (folder_of ?e no_buildConfig)" by (simp add: sample_defs value_defs)
  have h2: "falsy (host_of ?e)" by (simp add: sample_defs value_defs)
  have h3: "deliveryType_of no_buildConfig = ''fetch''" by (simp add: sample_defs value_defs)
  show ?thesis
    using h1 h2 h3
      onBuild_host_unknown_skip [OF h1 h2 h3, of "sample_externals [''/dist/images/a.png'']"
        "''/dist''" "[0]" "[0]" "start [] no_assets"]
    by (simp add: sample_defs value_defs)
qed

text \<open>
  C7. Under fetch the outcome of the checks does not depend on the API key and secret,
  and the checks pass exactly when folder, host and cloud name are present. Under
  upload the exit taken by the checks does not depend on the variables the host is
  read from, and the checks pass exactly when folder, cloud name, API key and secret
  are present.
\<close>

theorem onBuild_checks_mode_exclusive:
  "(deliveryType_of c = ''fetch'' \<longrightarrow>
      onBuild_checks X (e\<lparr>CLOUDINARY_API_KEY := k, CLOUDINARY_API_SECRET := s\<rparr>) c s0 =
        onBuild_checks X e c s0 \<and>
      (isl (onBuild_checks X e c s0) \<longleftrightarrow>
         falsy (folder_of e c) \<or> falsy (host_of e) \<or> falsy (cloudName_of e c))) \<and>
   (deliveryType_of c = ''upload'' \<longrightarrow>
      check_exit (onBuild_checks X
          (e\<lparr>CONTEXT := x, NETLIFY_HOST := y, DEPLOY_PRIME_URL := z\<rparr>) c s0) =
        check_exit (onBuild_checks X e c s0) \<and>
      (isl (onBuild_checks X e c s0) \<longleftrightarrow>
         falsy (folder_of e c) \<or> falsy (cloudName_of e c) \<or>
         falsy (CLOUDINARY_API_KEY e) \<or> falsy (CLOUDINARY_API_SECRET e)))"
  by (simp add: fetch_checks upload_checks)

text \<open>
  C7 on a fetch build without credentials and on an upload build without a host: the
  checks let both go on.
\<close>

theorem onBuild_checks_mode_exclusive_witness:
  "deliveryType_of no_buildConfig = ''fetch'' \<and>
   falsy (CLOUDINARY_API_KEY sample_env) \<and> falsy (CLOUDINARY_API_SECRET sample_env) \<and>
   \<not> isl (onBuild_checks (sample_externals []) sample_env no_buildConfig (start [] no_assets)) \<and>
   deliveryType_of (no_buildConfig\<lparr>deliveryType := Some ''upload''\<rparr>) = ''upload'' \<and>
   falsy (host_of (sample_env\<lparr>NETLIFY_HOST := None, CLOUDINARY_API_KEY := Some ''key'',
                              CLOUDINARY_API_SECRET := Some ''secret''\<rparr>)) \<and>
   \<not> isl (onBuild_checks (sample_externals [])
            (sample_env\<lparr>NETLIFY_HOST := None, CLOUDINARY_API_KEY := Some ''key'',
                        CLOUDINARY_API_SECRET := Some ''secret''\<rparr>)
            (no_buildConfig\<lparr>deliveryType := Some ''upload''\<rparr>) (start [] no_assets))"
  using
    onBuild_checks_mode_exclusive
      [where c = no_buildConfig and e = sample_env and X = "sample_externals []"
         and ?s0.0 = "start [] no_assets"]
    onBuild_checks_mode_exclusive
      [where c = "no_buildConfig\<lparr>deliveryType := Some ''upload''\<rparr>"
         and e = "sample_env\<lparr>NETLIFY_HOST := None, CLOUDINARY_API_KEY := Some ''key'',
                             CLOUDINARY_API_SECRET := Some ''secret''\<rparr>"
         and X = "sample_externals []" and ?s0.0 = "start [] no_assets"]
  by (simp add: sample_defs value_defs)

section \<open>Resolution of the discovered images\<close>

text \<open>
  C2. When the checks have passed and the resolution of at least one discovered image
  throws, the handler ends with \<^verbatim>\<open>utils.build.failBuild\<close>, called with the message of
  an error that one of the images' resolutions threw (the one that rejects first), and
  the redirect list is the one the handler was given: no rule is emitted.
\<close>

theorem onBuild_resolution_failure_fails_build:
  assumes "\<not> isl (onBuild_checks X e c s0)"
    and "\<exists>img\<in>set (imagesFiles X PUBLISH_DIR c). isl (resolve_image X e PUBLISH_DIR c img)"
  shows "(\<exists>img\<in>set (imagesFiles X PUBLISH_DIR c). \<exists>err.
            resolve_image X e PUBLISH_DIR c img = Inl err \<and>
            exit (onBuild X e PUBLISH_DIR c sched_resolve sched_emit s0) =
              FailBuild (message_of err)) \<and>
         redirects (onBuild X e PUBLISH_DIR c sched_resolve sched_emit s0) = redirects s0"
proof -
  let ?tasks = "map (resolve_image X e PUBLISH_DIR c) (imagesFiles X PUBLISH_DIR c)"
  from assms(1) obtain s2 where s2: "onBuild_checks X e c s0 = Inr s2"
    by (cases "onBuild_checks X e c s0") auto
  from assms(2) have "\<exists>r\<in>set ?tasks. isl r" by auto
  then obtain err where err: "promise_all sched_resolve ?tasks = Inl err"
    using promise_all_rejects by blast
  then have "Inl err \<in> set ?tasks" by (rule promise_all_Inl)
  then obtain img where "img \<in> set (imagesFiles X PUBLISH_DIR c)"
    "resolve_image X e PUBLISH_DIR c img = Inl err" by auto
  with onBuild_rejected [OF s2 err] show ?thesis by metis
qed

text \<open>
  C2 on two discovered files, the second of which the resolver rejects, the rejection
  settling first.
\<close>

theorem onBuild_resolution_failure_fails_build_witness:
  "\<not> isl (onBuild_checks (sample_externals [''/dist/images/a.png'', ''/dist/images/broken.png''])
           sample_env no_buildConfig (start [] no_assets)) \<and>
   isl (resolve_image (sample_externals [''/dist/images/a.png'', ''/dist/images/broken.png''])
           sample_env ''/dist'' no_buildConfig ''/dist/images/broken.png'') \<and>
   exit (onBuild (sample_externals [''/dist/images/a.png'', ''/dist/images/broken.png''])
           sample_env ''/dist'' no_buildConfig [1, 0] [0] (start [] no_assets))
     = FailBuild ''upload failed'' \<and>
   redirects (onBuild (sample_externals [''/dist/images/a.png'', ''/dist/images/broken.png''])
           sample_env ''/dist'' no_buildConfig [1, 0] [0] (start [] no_assets)) = []"
proof -
  let ?X = "sample_externals [''/dist/images/a.png'', ''/dist/images/broken.png'']"
  have h1: "\<not> isl (onBuild_checks ?X sample_env no_buildConfig (start [] no_assets))"
    by (simp add: build_defs sample_defs value_defs)
  have h2: "isl (resolve_image ?X sample_env ''/dist'' no_buildConfig ''/dist/images/broken.png'')"
    by (simp add: build_defs sample_defs value_defs)
  have h3: "\<exists>img\<in>set (imagesFiles ?X ''/dist'' no_buildConfig).
              isl (resolve_image ?X sample_env ''/dist'' no_buildConfig img)"
    using h2 by (simp add: build_defs imagesPath_of_eq sample_defs)
  show ?thesis
    using h1 h2 onBuild_resolution_failure_fails_build [OF h1 h3, of "[1, 0]" "[0]"]
    by (simp add: build_defs imagesPath_of_eq sample_defs value_defs)
qed

text \<open>
  C8. When the checks have passed and every discovered image resolves, the handler
  assigns the \<^verbatim>\<open>images\<close> entry of the asset cache once, to the list of the tasks'
  values in the order of the discovered files, whatever the order in which the tasks
  settle: the list has one record per file, the record at position \<open>i\<close> is the value
  of the task of file \<open>i\<close>, and its \<^verbatim>\<open>publishPath\<close> is the file path with the first
  occurrence of the publish directory removed, which is the path without its prefix
  when the publish directory is a prefix of it.
\<close>

theorem onBuild_populates_images:
  assumes "\<not> isl (onBuild_checks X e c s0)"
    and "\<forall>img\<in>set (imagesFiles X PUBLISH_DIR c). \<not> isl (resolve_image X e PUBLISH_DIR c img)"
  shows "assets (onBuild X e PUBLISH_DIR c sched_resolve sched_emit s0) =
           (assets s0)\<lparr>images := Populated (resolved_images X e PUBLISH_DIR c)\<rparr> \<and>
         length (resolved_images X e PUBLISH_DIR c) = length (imagesFiles X PUBLISH_DIR c) \<and>
         (\<forall>i<length (imagesFiles X PUBLISH_DIR c).
            resolve_image X e PUBLISH_DIR c (imagesFiles X PUBLISH_DIR c ! i) =
              Inr (resolved_images X e PUBLISH_DIR c ! i) \<and>
            publishPath (resolved_images X e PUBLISH_DIR c ! i) =
              js_replace (imagesFiles X PUBLISH_DIR c ! i) PUBLISH_DIR [] \<and>
            (prefix PUBLISH_DIR (imagesFiles X PUBLISH_DIR c ! i) \<longrightarrow>
               publishPath (resolved_images X e PUBLISH_DIR c ! i) =
                 drop (length PUBLISH_DIR) (imagesFiles X PUBLISH_DIR c ! i)))"
proof -
  from assms(1) obtain s2 where s2: "onBuild_checks X e c s0 = Inr s2"
    by (cases "onBuild_checks X e c s0") auto
  have "publishPath (resolved_images X e PUBLISH_DIR c ! i) =
          js_replace (imagesFiles X PUBLISH_DIR c ! i) PUBLISH_DIR []"
    if "i < length (imagesFiles X PUBLISH_DIR c)" for i
    using resolved_images_nth [OF assms(2) that] by (rule resolve_image_publishPath)
  then show ?thesis
    using onBuild_resolved(2) [OF s2 assms(2)] resolved_images_length [OF assms(2)]
      resolved_images_nth [OF assms(2)]
    by (simp add: js_replace_prefix)
qed

text \<open>C8 on two discovered files whose tasks settle in the reverse order.\<close>

theorem onBuild_populates_images_witness:
  "\<not> isl (onBuild_checks (sample_externals two_images) sample_env no_buildConfig
           (start [] no_assets)) \<and>
   \<not> isl (resolve_image (sample_externals two_images) sample_env ''/dist'' no_buildConfig
           ''/dist/images/a.png'') \<and>
   \<not> isl (resolve_image (sample_externals two_images) sample_env ''/dist'' no_buildConfig
           ''/dist/images/b.png'') \<and>
   assets (onBuild (sample_externals two_images) sample_env ''/dist'' no_buildConfig
             [1, 0] [0] (start [] no_assets)) =
     \<lparr>images = Populated
        [\<lparr>cloudinaryUrl = ''https://cdn.example/fetch?src=/images/a.png'', publicId = None,
          width = None, height = None, publishPath = ''/images/a.png''\<rparr>,
         \<lparr>cloudinaryUrl = ''https://cdn.example/fetch?src=/images/b.png'', publicId = None,
          width = None, height = None, publishPath = ''/images/b.png''\<rparr>]\<rparr>"
proof -
  let ?X = "sample_externals two_images"
  have h1: "\<not> isl (onBuild_checks ?X sample_env no_buildConfig (start [] no_assets))"
    by (simp add: build_defs sample_defs value_defs)
  have h2: "\<forall>img\<in>set (imagesFiles ?X ''/dist'' no_buildConfig).
              \<not> isl (resolve_image ?X sample_env ''/dist'' no_buildConfig img)"
    by (simp add: build_defs imagesPath_of_eq sample_defs value_defs two_images_def)
  show ?thesis
    using h1 h2
      onBuild_populates_images [OF h1 h2, of "[1, 0]" "[0]"]
    by (simp add: build_defs imagesPath_of_eq sample_defs value_defs two_images_def
        resolved_images_def)
qed

section \<open>Redirect emission\<close>

text \<open>
  C3. Under upload, when the checks have passed and every discovered image resolves,
  the final redirect list is the given one with one rule per cached asset put in
  front, the rule of the asset resolved last first: for \<open>N\<close> discovered files, entry
  \<open>i < N\<close> of the list is the rule \<^verbatim>\<open>{from: publishPath*, to: cloudinaryUrl, status: 302,
  force: true}\<close> of the asset resolved from file \<open>N - 1 - i\<close>.
\<close>

theorem onBuild_upload_redirects:
  assumes "deliveryType_of c = ''upload''"
    and "\<not> isl (onBuild_checks X e c s0)"
    and "\<forall>img\<in>set (imagesFiles X PUBLISH_DIR c). \<not> isl (resolve_image X e PUBLISH_DIR c img)"
  shows "redirects (onBuild X e PUBLISH_DIR c sched_resolve sched_emit s0) =
           rev (map upload_rule (cached_assets
                  (assets (onBuild X e PUBLISH_DIR c sched_resolve sched_emit s0)))) @
           redirects s0 \<and>
         length (cached_assets (assets (onBuild X e PUBLISH_DIR c sched_resolve sched_emit s0))) =
           length (imagesFiles X PUBLISH_DIR c) \<and>
         (\<forall>i<length (imagesFiles X PUBLISH_DIR c). \<exists>a.
            resolve_image X e PUBLISH_DIR c
              (imagesFiles X PUBLISH_DIR c ! (length (imagesFiles X PUBLISH_DIR c) - 1 - i)) =
              Inr a \<and>
            redirects (onBuild X e PUBLISH_DIR c sched_resolve sched_emit s0) ! i =
              \<lparr>r_from = publishPath a @ ''*'', r_to = cloudinaryUrl a, r_status = 302,
               r_force = True\<rparr>)"
proof -
  let ?files = "imagesFiles X PUBLISH_DIR c"
  let ?as = "resolved_images X e PUBLISH_DIR c"
  let ?final = "onBuild X e PUBLISH_DIR c sched_resolve sched_emit s0"
  from assms(2) obtain s2 where s2: "onBuild_checks X e c s0 = Inr s2"
    by (cases "onBuild_checks X e c s0") auto
  have cache: "cached_assets (assets ?final) = ?as"
    using onBuild_resolved(2) [OF s2 assms(3)] by (simp add: cached_assets_def)
  have len: "length ?as = length ?files" using assms(3) by (rule resolved_images_length)
  have red: "redirects ?final = rev (map upload_rule ?as) @ redirects s0"
    using onBuild_resolved(3) [OF s2 assms(3) assms(1)] .
  have "\<exists>a. resolve_image X e PUBLISH_DIR c (?files ! (length ?files - 1 - i)) = Inr a \<and>
          redirects ?final ! i = upload_rule a" if i: "i < length ?files" for i
  proof -
    from i have j: "length ?files - 1 - i < length ?files" by arith
    have "redirects ?final ! i = rev (map upload_rule ?as) ! i"
      using i len by (simp add: red nth_append)
    also have "\<dots> = upload_rule (?as ! (length ?files - 1 - i))"
      using i len by (simp add: rev_nth)
    finally show ?thesis using resolved_images_nth [OF assms(3) j] by blast
  qed
  then show ?thesis using cache len red by (simp add: upload_rule_def)
qed

text \<open>
  C3 on two uploaded images and a redirect list that already holds one rule: the rule
  of the second image is first, the rule of the first image second, the given rule
  last.
\<close>

theorem onBuild_upload_redirects_witness:
  "deliveryType_of upload_buildConfig = ''upload'' \<and>
   \<not> isl (onBuild_checks (sample_externals two_images) upload_env upload_buildConfig
           (start [\<lparr>r_from = ''/old'', r_to = ''/new'', r_status = 301, r_force = False\<rparr>]
              no_assets)) \<and>
   \<not> isl (resolve_image (sample_externals two_images) upload_env ''/dist'' upload_buildConfig
           ''/dist/images/a.png'') \<and>
   \<not> isl (resolve_image (sample_externals two_images) upload_env ''/dist'' upload_buildConfig
           ''/dist/images/b.png'') \<and>
   redirects (onBuild (sample_externals two_images) upload_env ''/dist'' upload_buildConfig
                [1, 0] []
                (start [\<lparr>r_from = ''/old'', r_to = ''/new'', r_status = 301, r_force = False\<rparr>]
                   no_assets)) =
     [\<lparr>r_from = ''/images/b.png*'', r_to = ''https://cdn.example/upload?src=/images/b.png'',
       r_status = 302, r_force = True\<rparr>,
      \<lparr>r_from = ''/images/a.png*'', r_to = ''https://cdn.example/upload?src=/images/a.png'',
       r_status = 302, r_force = True\<rparr>,
      \<lparr>r_from = ''/old'', r_to = ''/new'', r_status = 301, r_force = False\<rparr>]"
proof -
  let ?X = "sample_externals two_images"
  let ?s0 = "start [\<lparr>r_from = ''/old'', r_to = ''/new'', r_status = 301, r_force = False\<rparr>]
               no_assets"
  have h0: "deliveryType_of upload_buildConfig = ''upload''"
    by (simp add: upload_buildConfig_def sample_defs value_defs)
  have h1: "\<not> isl (onBuild_checks ?X upload_env upload_buildConfig ?s0)"
    by (simp add: build_defs upload_env_def upload_buildConfig_def sample_defs value_defs)
  have h2: "\<forall>img\<in>set (imagesFiles ?X ''/dist'' upload_buildConfig).
              \<not> isl (resolve_image ?X upload_env ''/dist'' upload_buildConfig img)"
    by (simp add: build_defs imagesPath_of_eq upload_env_def upload_buildConfig_def sample_defs
        value_defs two_images_def)
  show ?thesis
    using h0 h1 h2
      onBuild_upload_redirects [OF h0 h1 h2, of "[1, 0]" "[]"]
    by (simp add: onBuild_def build_defs imagesPath_of_eq upload_env_def upload_buildConfig_def
        sample_defs value_defs two_images_def upload_rule_def emit_upload_def cached_assets_def
        promise_all_def in_order_def unshift_def)
qed

text \<open>
  C1, as the claim states it: the pass-through rule has the lower index. On a fetch
  build with the default images path the final list holds the redirect rule at index
  0 and the pass-through rule at index 1.
\<close>

theorem passthrough_not_evaluated_first:
  "redirects (onBuild (sample_externals two_images) sample_env ''/dist'' no_buildConfig
      [0, 1] [0] (start [] no_assets)) =
     [\<lparr>r_from = ''/images/*'',
       r_to = ''https://cdn.example/fetch?src=https://site.example/cld-assets/images/:splat'',
       r_status = 302, r_force = True\<rparr>,
      \<lparr>r_from = ''/cld-assets/images/*'', r_to = ''/images/:splat'', r_status = 200,
       r_force = True\<rparr>] \<and>
   \<not> evaluated_before
       \<lparr>r_from = ''/cld-assets/images/*'', r_to = ''/images/:splat'', r_status = 200,
        r_force = True\<rparr>
       \<lparr>r_from = ''/images/*'',
        r_to = ''https://cdn.example/fetch?src=https://site.example/cld-assets/images/:splat'',
        r_status = 302, r_force = True\<rparr>
       (redirects (onBuild (sample_externals two_images) sample_env ''/dist'' no_buildConfig
          [0, 1] [0] (start [] no_assets)))"
  by (simp add: onBuild_def build_defs imagesPath_of_eq emit_defs sample_defs value_defs
      two_images_def evaluated_before_def)

text \<open>
  C1, amended. Under fetch, when the checks have passed, the images have resolved and
  every task of line 215 has settled, then for every configured media path whose
  redirect URL resolves the redirect rule \<^verbatim>\<open>{from: mediaPath/*, to: cloudinaryUrl, status:
  302, force: true}\<close> is in the final list and the pass-through rule
  \<^verbatim>\<open>{from: cldAssetPath/*, to: mediaPath/:splat, status: 200, force: true}\<close> of the same
  media path is at the next index: the redirect rule is the one evaluated first.
\<close>

theorem fetch_redirect_precedes_passthrough:
  assumes "deliveryType_of c = ''fetch''"
    and "\<not> isl (onBuild_checks X e c s0)"
    and "\<forall>img\<in>set (imagesFiles X PUBLISH_DIR c). \<not> isl (resolve_image X e PUBLISH_DIR c img)"
    and "valid_schedule (length (fetch_mediaPaths c)) sched_emit"
    and "mediaPath \<in> set (fetch_mediaPaths c)"
    and "getCloudinaryUrl X (configuration e c) (fetch_request X e c mediaPath) = Inr cl"
  shows "(\<exists>i. index_of (redirect_rule mediaPath (cloudinaryUrl cl))
                 (redirects (onBuild X e PUBLISH_DIR c sched_resolve sched_emit s0)) = Some i \<and>
              index_of (passthrough_rule X mediaPath)
                 (redirects (onBuild X e PUBLISH_DIR c sched_resolve sched_emit s0)) = Some (Suc i)) \<and>
         evaluated_before (redirect_rule mediaPath (cloudinaryUrl cl)) (passthrough_rule X mediaPath)
           (redirects (onBuild X e PUBLISH_DIR c sched_resolve sched_emit s0))"
proof -
  from assms(2) obtain s2 where s2: "onBuild_checks X e c s0 = Inr s2"
    by (cases "onBuild_checks X e c s0") auto
  have r: "redirects (onBuild X e PUBLISH_DIR c sched_resolve sched_emit s0) =
        redirects (foldl (\<lambda>s m. fetch_task X e c m s) s0 (in_order sched_emit (fetch_mediaPaths c)))"
    using onBuild_resolved_fetch [OF s2 assms(3) assms(1)] by (simp add: emit_fetch_def)
  from assms(4,5) have "mediaPath \<in> set (in_order sched_emit (fetch_mediaPaths c))"
    by (simp add: in_order_set)
  from fetch_tasks_order [OF this assms(6), of s0] r
  show ?thesis by (auto simp: evaluated_before_def)
qed

text \<open>
  C1, amended, on two media paths whose tasks settle in the reverse order: the rules
  of \<^verbatim>\<open>/media\<close> are at indices 2 and 3.
\<close>

theorem fetch_redirect_precedes_passthrough_witness:
  "deliveryType_of two_paths_buildConfig = ''fetch'' \<and>
   \<not> isl (onBuild_checks (sample_externals two_images) sample_env two_paths_buildConfig
           (start [] no_assets)) \<and>
   valid_schedule (length (fetch_mediaPaths two_paths_buildConfig)) [1, 0] \<and>
   ''/media'' \<in> set (fetch_mediaPaths two_paths_buildConfig) \<and>
   index_of
     \<lparr>r_from = ''/media/*'',
      r_to = ''https://cdn.example/fetch?src=https://site.example/cld-assets/media/:splat'',
      r_status = 302, r_force = True\<rparr>
     (redirects (onBuild (sample_externals two_images) sample_env ''/dist''
        two_paths_buildConfig [0, 1] [1, 0] (start [] no_assets))) = Some 2 \<and>
   index_of
     \<lparr>r_from = ''/cld-assets/media/*'', r_to = ''/media/:splat'', r_status = 200,
      r_force = True\<rparr>
     (redirects (onBuild (sample_externals two_images) sample_env ''/dist''
        two_paths_buildConfig [0, 1] [1, 0] (start [] no_assets))) = Some 3"
proof -
  let ?X = "sample_externals two_images"
  let ?c = two_paths_buildConfig
  have h0: "deliveryType_of ?c = ''fetch''"
    by (simp add: two_paths_buildConfig_def sample_defs value_defs)
  have h1: "\<not> isl (onBuild_checks ?X sample_env ?c (start [] no_assets))"
    by (simp add: build_defs two_paths_buildConfig_def sample_defs value_defs)
  have h2: "\<forall>img\<in>set (imagesFiles ?X ''/dist'' ?c).
              \<not> isl (resolve_image ?X sample_env ''/dist'' ?c img)"
    by (simp add: build_defs imagesPath_of_eq two_paths_buildConfig_def sample_defs
        value_defs two_images_def)
  have m: "fetch_mediaPaths ?c = [''/images'', ''/media'']"
    by (simp add: emit_defs two_paths_buildConfig_def sample_defs)
  have h3: "valid_schedule (length (fetch_mediaPaths ?c)) [1, 0]"
    by (simp add: m valid_schedule_def)
  have h4: "''/media'' \<in> set (fetch_mediaPaths ?c)" by (simp add: m)
  have h5: "getCloudinaryUrl ?X (configuration sample_env ?c)
              (fetch_request ?X sample_env ?c ''/media'') =
            Inr \<lparr>cloudinaryUrl =
                   ''https://cdn.example/fetch?src=https://site.example/cld-assets/media/:splat'',
                 publicId = None, width = None, height = None\<rparr>"
    by (simp add: emit_defs sample_defs value_defs)
  have r: "redirects (onBuild ?X sample_env ''/dist'' ?c [0, 1] [1, 0] (start [] no_assets)) =
      [\<lparr>r_from = ''/images/*'',
        r_to = ''https://cdn.example/fetch?src=https://site.example/cld-assets/images/:splat'',
        r_status = 302, r_force = True\<rparr>,
       \<lparr>r_from = ''/cld-assets/images/*'', r_to = ''/images/:splat'', r_status = 200,
        r_force = True\<rparr>,
       \<lparr>r_from = ''/media/*'',
        r_to = ''https://cdn.example/fetch?src=https://site.example/cld-assets/media/:splat'',
        r_status = 302, r_force = True\<rparr>,
       \<lparr>r_from = ''/cld-assets/media/*'', r_to = ''/media/:splat'', r_status = 200,
        r_force = True\<rparr>]"
    by (simp add: onBuild_def build_defs imagesPath_of_eq emit_defs two_paths_buildConfig_def
        sample_defs value_defs two_images_def)
  have g: "redirect_rule ''/media''
             ''https://cdn.example/fetch?src=https://site.example/cld-assets/media/:splat'' =
           \<lparr>r_from = ''/media/*'',
            r_to = ''https://cdn.example/fetch?src=https://site.example/cld-assets/media/:splat'',
            r_status = 302, r_force = True\<rparr>"
    by (simp add: redirect_rule_def)
  have p: "passthrough_rule ?X ''/media'' =
           \<lparr>r_from = ''/cld-assets/media/*'', r_to = ''/media/:splat'', r_status = 200,
            r_force = True\<rparr>"
    by (simp add: passthrough_rule_def cldAssetPath_def sample_defs)
  show ?thesis
    using h0 h1 h3 h4
      fetch_redirect_precedes_passthrough [OF h0 h1 h2 h3 h4 h5, of "[0, 1]"]
    unfolding r g p by simp
qed

section \<open>The rewrite pass\<close>

text \<open>
  C4. Once its checks have passed, the post-build handler never calls
  \<^verbatim>\<open>utils.build.failBuild\<close> or \<^verbatim>\<open>utils.build.failPlugin\<close>. When every page's rewrite
  returns, whatever errors it reports, the handler returns at its last line, every
  page that \<^verbatim>\<open>glob.sync\<close> found is written with its rewritten text, and the console
  ends with \<^verbatim>\<open>Done.\<close> when no page reported an error and otherwise with the count of
  the pages that did and the list of those pages with their errors.
\<close>

theorem onPostBuild_errors_do_not_fail:
  assumes "\<not> isl (onPostBuild_checks X e c s0)"
  shows "\<not> failure_channel_called (exit (onPostBuild X e PUBLISH_DIR c sched s0)) \<and>
    (valid_schedule (length (pages_of X PUBLISH_DIR)) sched \<and>
     (\<forall>page\<in>set (pages_of X PUBLISH_DIR).
        \<not> isl (rewrite_page X e PUBLISH_DIR c (assets s0) page)) \<longrightarrow>
       exit (onPostBuild X e PUBLISH_DIR c sched s0) = Done \<and>
       map fst (rewritten X e PUBLISH_DIR c (assets s0)) = pages_of X PUBLISH_DIR \<and>
       set (pages_written (onPostBuild X e PUBLISH_DIR c sched s0)) =
         set (pages_written s0) \<union>
         (\<lambda>(page, r). (page, html r)) ` set (rewritten X e PUBLISH_DIR c (assets s0)) \<and>
       console (onPostBuild X e PUBLISH_DIR c sched s0) =
         console s0 @
         [Log ''[Cloudinary] Replacing on-page images with Cloudinary URLs...'',
          Log (''[Cloudinary] Using host: '' @ interpolate (host_of e))] @
         (if with_errors (rewritten X e PUBLISH_DIR c (assets s0)) = [] then
            [Log ''[Cloudinary] Done.'']
          else
            [Log (''[Cloudinary] Done with '' @
                  digits (length (with_errors (rewritten X e PUBLISH_DIR c (assets s0)))) @
                  '' errors...''),
             LogReport (map (\<lambda>(page, r). (page, errors r))
                         (with_errors (rewritten X e PUBLISH_DIR c (assets s0))))]))"
proof -
  let ?tasks = "map (rewrite_page X e PUBLISH_DIR c (assets s0)) (pages_of X PUBLISH_DIR)"
  from assms obtain s2 where s2: "onPostBuild_checks X e c s0 = Inr s2"
    by (cases "onPostBuild_checks X e c s0") auto
  have a: "\<not> failure_channel_called (exit (onPostBuild X e PUBLISH_DIR c sched s0))"
    using s2 by (rule onPostBuild_exit)
  have b: "map fst (rewritten X e PUBLISH_DIR c (assets s0)) = pages_of X PUBLISH_DIR"
    if "\<forall>page\<in>set (pages_of X PUBLISH_DIR).
          \<not> isl (rewrite_page X e PUBLISH_DIR c (assets s0) page)"
    unfolding rewritten_def using that by (intro fulfilled_pages) (simp add: rewrite_page_page)
  have c: "set (fulfilled (in_order sched ?tasks)) = set (rewritten X e PUBLISH_DIR c (assets s0))"
    if "valid_schedule (length (pages_of X PUBLISH_DIR)) sched"
  proof -
    from that have "set (in_order sched ?tasks) = set ?tasks" by (intro in_order_set) simp
    then show ?thesis by (simp add: set_fulfilled rewritten_def)
  qed
  show ?thesis
    using a b c onPostBuild_resolved [OF s2, of PUBLISH_DIR sched]
    by (simp add: image_Un)
qed

text \<open>
  C4 on two pages whose tasks settle in the reverse order, the second page with one
  error.
\<close>

theorem onPostBuild_errors_do_not_fail_witness:
  "\<not> isl (onPostBuild_checks page_externals sample_env no_buildConfig (start [] no_assets)) \<and>
   valid_schedule (length (pages_of page_externals ''/dist'')) [1, 0] \<and>
   \<not> isl (rewrite_page page_externals sample_env ''/dist'' no_buildConfig no_assets
           ''/dist/index.html'') \<and>
   \<not> isl (rewrite_page page_externals sample_env ''/dist'' no_buildConfig no_assets
           ''/dist/about.html'') \<and>
   exit (onPostBuild page_externals sample_env ''/dist'' no_buildConfig [1, 0]
           (start [] no_assets)) = Done \<and>
   set (pages_written (onPostBuild page_externals sample_env ''/dist'' no_buildConfig [1, 0]
           (start [] no_assets))) =
     {(''/dist/index.html'', ''<img src=https://cdn.example/a.png>''),
      (''/dist/about.html'', ''<img src=missing.png>'')} \<and>
   console (onPostBuild page_externals sample_env ''/dist'' no_buildConfig [1, 0]
           (start [] no_assets)) =
     [Log ''[Cloudinary] Replacing on-page images with Cloudinary URLs...'',
      Log ''[Cloudinary] Using host: https://site.example'',
      Log ''[Cloudinary] Done with 1 errors...'',
      LogReport [(''/dist/about.html'', [''missing.png: not found''])]]"
proof -
  let ?X = page_externals
  have h1: "\<not> isl (onPostBuild_checks ?X sample_env no_buildConfig (start [] no_assets))"
    by (simp add: onPostBuild_checks_def Let_def say_def page_externals_def sample_defs value_defs)
  have pages: "pages_of ?X ''/dist'' = [''/dist/index.html'', ''/dist/about.html'']"
    by (simp add: pages_of_def page_externals_def sample_defs)
  have h2: "valid_schedule (length (pages_of ?X ''/dist'')) [1, 0]"
    by (simp add: pages valid_schedule_def)
  have t1: "rewrite_page ?X sample_env ''/dist'' no_buildConfig no_assets ''/dist/index.html'' =
      Inr (''/dist/index.html'', \<lparr>html = ''<img src=https://cdn.example/a.png>'', errors = []\<rparr>)"
    by (simp add: rewrite_page_def Let_def page_externals_def sample_rewrite_def sample_defs)
  have t2: "rewrite_page ?X sample_env ''/dist'' no_buildConfig no_assets ''/dist/about.html'' =
      Inr (''/dist/about.html'',
           \<lparr>html = ''<img src=missing.png>'', errors = [''missing.png: not found'']\<rparr>)"
    by (simp add: rewrite_page_def Let_def page_externals_def sample_rewrite_def sample_defs)
  have a: "assets (start [] no_assets) = no_assets" by (simp add: start_def)
  have h3: "\<forall>page\<in>set (pages_of ?X ''/dist'').
      \<not> isl (rewrite_page ?X sample_env ''/dist'' no_buildConfig (assets (start [] no_assets)) page)"
    by (simp add: pages a t1 t2)
  have d: "digits (Suc 0) = ''1''" by code_simp
  have rw: "rewritten ?X sample_env ''/dist'' no_buildConfig no_assets =
      [(''/dist/index.html'', \<lparr>html = ''<img src=https://cdn.example/a.png>'', errors = []\<rparr>),
       (''/dist/about.html'',
        \<lparr>html = ''<img src=missing.png>'', errors = [''missing.png: not found'']\<rparr>)]"
    by (simp add: rewritten_def pages t1 t2)
  have host: "interpolate (host_of sample_env) = ''https://site.example''"
    by (simp add: sample_defs value_defs)
  have s0: "console (start [] no_assets) = []" "pages_written (start [] no_assets) = []"
    by (simp_all add: start_def)
  show ?thesis
    using h1 h2 t1 t2
      onPostBuild_errors_do_not_fail [OF h1, of "''/dist''" "[1, 0]"]
    unfolding a rw host s0
    by (simp add: with_errors_def d pages h2 insert_commute)
qed

section \<open>Discovery that finds nothing\<close>

text \<open>
  C9. When no file matches the configured images path, discovery (as the
  specification describes it) returns the empty sequence, and the handler, once the
  checks have passed, logs the warning and the hint and goes on with zero assets: it
  returns at its last line, without a throw and without a call to a failure channel,
  and the \<^verbatim>\<open>images\<close> entry of the asset cache is the empty list.
\<close>

theorem onBuild_no_images_found:
  assumes "\<not> isl (onBuild_checks X e c s0)"
    and "findAssetsByPath X = findAssetsByPath_spec matches disk"
    and "imagesPath_of c = Some p"
    and "\<forall>pat\<in>set (patterns p). \<forall>f\<in>set disk. \<not> matches PUBLISH_DIR pat f"
  shows "findAssetsByPath X PUBLISH_DIR p = [] \<and>
         exit (onBuild X e PUBLISH_DIR c sched_resolve sched_emit s0) = Done \<and>
         \<not> failure_channel_called (exit (onBuild X e PUBLISH_DIR c sched_resolve sched_emit s0)) \<and>
         console (onBuild X e PUBLISH_DIR c sched_resolve sched_emit s0) =
           console s0 @
           [Log ''[Cloudinary] Creating redirects...'',
            Log (''[Cloudinary] Using host: '' @ interpolate (host_of e)),
            Warn (''[Cloudinary] No image files found in '' @ show_paths p),
            Log (''[Cloudinary] Did you update your images path? '' @
                 ''You can set the imagesPath input in your Netlify config.''),
            Log ''[Cloudinary] Done.''] \<and>
         assets (onBuild X e PUBLISH_DIR c sched_resolve sched_emit s0) =
           (assets s0)\<lparr>images := Populated []\<rparr>"
proof -
  from assms(1) obtain s2 where s2: "onBuild_checks X e c s0 = Inr s2"
    by (cases "onBuild_checks X e c s0") auto
  from assms(4) have "\<forall>pat\<in>set (patterns p). filter (matches PUBLISH_DIR pat) disk = []"
    by (simp add: filter_empty_conv)
  then have none: "findAssetsByPath X PUBLISH_DIR p = []"
    by (simp add: assms(2) findAssetsByPath_spec_def)
  then have files: "imagesFiles X PUBLISH_DIR c = []"
    by (simp add: imagesFiles_def assms(3))
  then have all: "\<forall>img\<in>set (imagesFiles X PUBLISH_DIR c).
      \<not> isl (resolve_image X e PUBLISH_DIR c img)" by simp
  have "resolved_images X e PUBLISH_DIR c = []" by (simp add: resolved_images_def files)
  with none files onBuild_resolved(1,2) [OF s2 all, of sched_resolve sched_emit]
    onBuild_resolved_console [OF s2 all assms(3), of sched_resolve sched_emit]
  show ?thesis by (simp add: failure_channel_called_def)
qed

text \<open>
  C9 on a publish directory that holds a page and a style sheet and no file under
  \<^verbatim>\<open>/images\<close>.
\<close>

theorem onBuild_no_images_found_witness:
  "\<not> isl (onBuild_checks (disk_externals [''/dist/index.html'', ''/dist/css/site.css''])
           sample_env no_buildConfig (start [] no_assets)) \<and>
   imagesPath_of no_buildConfig = Some (OnePath ''/images'') \<and>
   \<not> sample_matches ''/dist'' ''/images'' ''/dist/index.html'' \<and>
   \<not> sample_matches ''/dist'' ''/images'' ''/dist/css/site.css'' \<and>
   exit (onBuild (disk_externals [''/dist/index.html'', ''/dist/css/site.css''])
           sample_env ''/dist'' no_buildConfig [] [0] (start [] no_assets)) = Done \<and>
   console (onBuild (disk_externals [''/dist/index.html'', ''/dist/css/site.css''])
           sample_env ''/dist'' no_buildConfig [] [0] (start [] no_assets)) =
     [Log ''[Cloudinary] Creating redirects...'',
      Log ''[Cloudinary] Using host: https://site.example'',
      Warn ''[Cloudinary] No image files found in /images'',
      Log (''[Cloudinary] Did you update your images path? '' @
           ''You can set the imagesPath input in your Netlify config.''),
      Log ''[Cloudinary] Done.''] \<and>
   assets (onBuild (disk_externals [''/dist/index.html'', ''/dist/css/site.css''])
           sample_env ''/dist'' no_buildConfig [] [0] (start [] no_assets)) =
     \<lparr>images = Populated []\<rparr>"
proof -
  let ?disk = "[''/dist/index.html'', ''/dist/css/site.css'']"
  let ?X = "disk_externals ?disk"
  have h1: "\<not> isl (onBuild_checks ?X sample_env no_buildConfig (start [] no_assets))"
    by (simp add: build_defs disk_externals_def sample_defs value_defs)
  have h2: "findAssetsByPath ?X = findAssetsByPath_spec sample_matches ?disk"
    by (simp add: disk_externals_def sample_defs)
  have h3: "imagesPath_of no_buildConfig = Some (OnePath ''/images'')"
    by (simp add: imagesPath_of_eq sample_defs)
  have h4: "\<forall>pat\<in>set (patterns (OnePath ''/images'')). \<forall>f\<in>set ?disk.
              \<not> sample_matches ''/dist'' pat f"
    by (simp add: patterns_def sample_matches_def)
  show ?thesis
    using h1 h3 h4
      onBuild_no_images_found [OF h1 h2 h3 h4, of "[]" "[0]"]
    by (simp add: patterns_def show_paths_def sample_defs value_defs)
qed

end
